theory Spec2Isabelle
  imports Complex_Main "HOL-Library.Log_Nat"
begin

section \<open>Python strings\<close>

text \<open>
  A Python \<open>str\<close> is a sequence of Unicode code points, modelled as a list of
  integers (the values of \<open>ord\<close>). ASCII text is written as an Isabelle string
  literal and converted with \<open>cp\<close>; the other code points of the source's literals
  are written as numbers.
\<close>

type_synonym pystr = "int list"

definition cp :: "string \<Rightarrow> pystr" where
  "cp s = map of_char s"

text \<open>
  \<open>str.lower()\<close> of CPython 3.11, whose case tables are those of Unicode 14.0.
  Every code point is replaced by its full lower-case mapping, which does not depend
  on its neighbours, except the capital sigma (931), which becomes the final sigma
  (962) in the context that \<open>handle_capital_sigma\<close> recognises and the small sigma
  (963) elsewhere.

  Below 256 the mapping sends \<open>A\<close>..\<open>Z\<close> and the Latin-1 capitals (192..214,
  216..222) to the code point 32 above. From 256 on it is given by \<open>lower_runs\<close>:
  \<open>(lo, hi, step, d)\<close> says that the code points \<open>lo, lo + step, ..\<close> up to
  \<open>hi\<close> are mapped to the code point \<open>d\<close> above. Code point 304 alone maps to
  two code points, 105 and 775. Every other code point is left unchanged.
\<close>

definition lower_cp :: "int \<Rightarrow> int" where
  "lower_cp c =
     (if (65 \<le> c \<and> c \<le> 90) \<or> (192 \<le> c \<and> c \<le> 214) \<or> (216 \<le> c \<and> c \<le> 222)
      then c + 32 else c)"

definition lower_runs :: "(int \<times> int \<times> int \<times> int) list" where
  "lower_runs =
     [(256, 302, 2, 1), (306, 310, 2, 1), (313, 327, 2, 1), (330, 374, 2, 1),
      (376, 376, 1, - 121), (377, 381, 2, 1), (385, 385, 1, 210), (386, 388, 2, 1),
      (390, 390, 1, 206), (391, 391, 1, 1), (393, 394, 1, 205), (395, 395, 1, 1),
      (398, 398, 1, 79), (399, 399, 1, 202), (400, 400, 1, 203), (401, 401, 1, 1),
      (403, 403, 1, 205), (404, 404, 1, 207), (406, 406, 1, 211), (407, 407, 1, 209),
      (408, 408, 1, 1), (412, 412, 1, 211), (413, 413, 1, 213), (415, 415, 1, 214),
      (416, 420, 2, 1), (422, 422, 1, 218), (423, 423, 1, 1), (425, 425, 1, 218),
      (428, 428, 1, 1), (430, 430, 1, 218), (431, 431, 1, 1), (433, 434, 1, 217),
      (435, 437, 2, 1), (439, 439, 1, 219), (440, 440, 1, 1), (444, 444, 1, 1),
      (452, 452, 1, 2), (453, 453, 1, 1), (455, 455, 1, 2), (456, 456, 1, 1),
      (458, 458, 1, 2), (459, 475, 2, 1), (478, 494, 2, 1), (497, 497, 1, 2),
      (498, 500, 2, 1), (502, 502, 1, - 97), (503, 503, 1, - 56), (504, 542, 2, 1),
      (544, 544, 1, - 130), (546, 562, 2, 1), (570, 570, 1, 10795), (571, 571, 1, 1),
      (573, 573, 1, - 163), (574, 574, 1, 10792), (577, 577, 1, 1), (579, 579, 1, - 195),
      (580, 580, 1, 69), (581, 581, 1, 71), (582, 590, 2, 1), (880, 882, 2, 1),
      (886, 886, 1, 1), (895, 895, 1, 116), (902, 902, 1, 38), (904, 906, 1, 37),
      (908, 908, 1, 64), (910, 911, 1, 63), (913, 929, 1, 32), (931, 939, 1, 32),
      (975, 975, 1, 8), (984, 1006, 2, 1), (1012, 1012, 1, - 60), (1015, 1015, 1, 1),
      (1017, 1017, 1, - 7), (1018, 1018, 1, 1), (1021, 1023, 1, - 130), (1024, 1039, 1, 80),
      (1040, 1071, 1, 32), (1120, 1152, 2, 1), (1162, 1214, 2, 1), (1216, 1216, 1, 15),
      (1217, 1229, 2, 1), (1232, 1326, 2, 1), (1329, 1366, 1, 48), (4256, 4293, 1, 7264),
      (4295, 4295, 1, 7264), (4301, 4301, 1, 7264), (5024, 5103, 1, 38864),
      (5104, 5109, 1, 8), (7312, 7354, 1, - 3008), (7357, 7359, 1, - 3008),
      (7680, 7828, 2, 1), (7838, 7838, 1, - 7615), (7840, 7934, 2, 1), (7944, 7951, 1, - 8),
      (7960, 7965, 1, - 8), (7976, 7983, 1, - 8), (7992, 7999, 1, - 8), (8008, 8013, 1, - 8),
      (8025, 8031, 2, - 8), (8040, 8047, 1, - 8), (8072, 8079, 1, - 8), (8088, 8095, 1, - 8),
      (8104, 8111, 1, - 8), (8120, 8121, 1, - 8), (8122, 8123, 1, - 74),
      (8124, 8124, 1, - 9), (8136, 8139, 1, - 86), (8140, 8140, 1, - 9),
      (8152, 8153, 1, - 8), (8154, 8155, 1, - 100), (8168, 8169, 1, - 8),
      (8170, 8171, 1, - 112), (8172, 8172, 1, - 7), (8184, 8185, 1, - 128),
      (8186, 8187, 1, - 126), (8188, 8188, 1, - 9), (8486, 8486, 1, - 7517),
      (8490, 8490, 1, - 8383), (8491, 8491, 1, - 8262), (8498, 8498, 1, 28),
      (8544, 8559, 1, 16), (8579, 8579, 1, 1), (9398, 9423, 1, 26), (11264, 11311, 1, 48),
      (11360, 11360, 1, 1), (11362, 11362, 1, - 10743), (11363, 11363, 1, - 3814),
      (11364, 11364, 1, - 10727), (11367, 11371, 2, 1), (11373, 11373, 1, - 10780),
      (11374, 11374, 1, - 10749), (11375, 11375, 1, - 10783), (11376, 11376, 1, - 10782),
      (11378, 11378, 1, 1), (11381, 11381, 1, 1), (11390, 11391, 1, - 10815),
      (11392, 11490, 2, 1), (11499, 11501, 2, 1), (11506, 11506, 1, 1), (42560, 42604, 2, 1),
      (42624, 42650, 2, 1), (42786, 42798, 2, 1), (42802, 42862, 2, 1), (42873, 42875, 2, 1),
      (42877, 42877, 1, - 35332), (42878, 42886, 2, 1), (42891, 42891, 1, 1),
      (42893, 42893, 1, - 42280), (42896, 42898, 2, 1), (42902, 42920, 2, 1),
      (42922, 42922, 1, - 42308), (42923, 42923, 1, - 42319), (42924, 42924, 1, - 42315),
      (42925, 42925, 1, - 42305), (42926, 42926, 1, - 42308), (42928, 42928, 1, - 42258),
      (42929, 42929, 1, - 42282), (42930, 42930, 1, - 42261), (42931, 42931, 1, 928),
      (42932, 42946, 2, 1), (42948, 42948, 1, - 48), (42949, 42949, 1, - 42307),
      (42950, 42950, 1, - 35384), (42951, 42953, 2, 1), (42960, 42960, 1, 1),
      (42966, 42968, 2, 1), (42997, 42997, 1, 1), (65313, 65338, 1, 32),
      (66560, 66599, 1, 40), (66736, 66771, 1, 40), (66928, 66938, 1, 39),
      (66940, 66954, 1, 39), (66956, 66962, 1, 39), (66964, 66965, 1, 39),
      (68736, 68786, 1, 64), (71840, 71871, 1, 32), (93760, 93791, 1, 32),
      (125184, 125217, 1, 34)]"

fun run_delta :: "int \<Rightarrow> (int \<times> int \<times> int \<times> int) list \<Rightarrow> int" where
  "run_delta c [] = 0"
| "run_delta c ((lo, hi, step, d) # rs) =
     (if lo \<le> c \<and> c \<le> hi \<and> (c - lo) mod step = 0 then d else run_delta c rs)"

text \<open>\<open>_PyUnicode_ToLowerFull\<close>.\<close>

definition to_lower_full :: "int \<Rightarrow> pystr" where
  "to_lower_full c =
     (if c < 256 then [lower_cp c]
      else if c = 304 then [105, 775]
      else [c + run_delta c lower_runs])"

text \<open>
  The code points with the property Cased (\<open>_PyUnicode_IsCased\<close>) and with the
  property Case\_Ignorable (\<open>_PyUnicode_IsCaseIgnorable\<close>), as inclusive ranges.
\<close>

definition cased_ranges :: "(int \<times> int) list" where
  "cased_ranges =
     [(65, 90), (97, 122), (170, 170), (181, 181), (186, 186), (192, 214), (216, 246),
      (248, 442), (444, 447), (452, 659), (661, 696), (704, 705), (736, 740), (837, 837),
      (880, 883), (886, 887), (890, 893), (895, 895), (902, 902), (904, 906), (908, 908),
      (910, 929), (931, 1013), (1015, 1153), (1162, 1327), (1329, 1366), (1376, 1416),
      (4256, 4293), (4295, 4295), (4301, 4301), (4304, 4346), (4349, 4351), (5024, 5109),
      (5112, 5117), (7296, 7304), (7312, 7354), (7357, 7359), (7424, 7615), (7680, 7957),
      (7960, 7965), (7968, 8005), (8008, 8013), (8016, 8023), (8025, 8025), (8027, 8027),
      (8029, 8029), (8031, 8061), (8064, 8116), (8118, 8124), (8126, 8126), (8130, 8132),
      (8134, 8140), (8144, 8147), (8150, 8155), (8160, 8172), (8178, 8180), (8182, 8188),
      (8305, 8305), (8319, 8319), (8336, 8348), (8450, 8450), (8455, 8455), (8458, 8467),
      (8469, 8469), (8473, 8477), (8484, 8484), (8486, 8486), (8488, 8488), (8490, 8493),
      (8495, 8500), (8505, 8505), (8508, 8511), (8517, 8521), (8526, 8526), (8544, 8575),
      (8579, 8580), (9398, 9449), (11264, 11492), (11499, 11502), (11506, 11507),
      (11520, 11557), (11559, 11559), (11565, 11565), (42560, 42605), (42624, 42653),
      (42786, 42887), (42891, 42894), (42896, 42954), (42960, 42961), (42963, 42963),
      (42965, 42969), (42997, 42998), (43000, 43002), (43824, 43866), (43868, 43880),
      (43888, 43967), (64256, 64262), (64275, 64279), (65313, 65338), (65345, 65370),
      (66560, 66639), (66736, 66771), (66776, 66811), (66928, 66938), (66940, 66954),
      (66956, 66962), (66964, 66965), (66967, 66977), (66979, 66993), (66995, 67001),
      (67003, 67004), (67456, 67456), (67459, 67461), (67463, 67504), (67506, 67514),
      (68736, 68786), (68800, 68850), (71840, 71903), (93760, 93823), (119808, 119892),
      (119894, 119964), (119966, 119967), (119970, 119970), (119973, 119974),
      (119977, 119980), (119982, 119993), (119995, 119995), (119997, 120003),
      (120005, 120069), (120071, 120074), (120077, 120084), (120086, 120092),
      (120094, 120121), (120123, 120126), (120128, 120132), (120134, 120134),
      (120138, 120144), (120146, 120485), (120488, 120512), (120514, 120538),
      (120540, 120570), (120572, 120596), (120598, 120628), (120630, 120654),
      (120656, 120686), (120688, 120712), (120714, 120744), (120746, 120770),
      (120772, 120779), (122624, 122633), (122635, 122654), (125184, 125251),
      (127280, 127305), (127312, 127337), (127344, 127369)]"

definition case_ignorable_ranges :: "(int \<times> int) list" where
  "case_ignorable_ranges =
     [(39, 39), (46, 46), (58, 58), (94, 94), (96, 96), (168, 168), (173, 173), (175, 175),
      (180, 180), (183, 184), (688, 879), (884, 885), (890, 890), (900, 901), (903, 903),
      (1155, 1161), (1369, 1369), (1375, 1375), (1425, 1469), (1471, 1471), (1473, 1474),
      (1476, 1477), (1479, 1479), (1524, 1524), (1536, 1541), (1552, 1562), (1564, 1564),
      (1600, 1600), (1611, 1631), (1648, 1648), (1750, 1757), (1759, 1768), (1770, 1773),
      (1807, 1807), (1809, 1809), (1840, 1866), (1958, 1968), (2027, 2037), (2042, 2042),
      (2045, 2045), (2070, 2093), (2137, 2139), (2184, 2184), (2192, 2193), (2200, 2207),
      (2249, 2306), (2362, 2362), (2364, 2364), (2369, 2376), (2381, 2381), (2385, 2391),
      (2402, 2403), (2417, 2417), (2433, 2433), (2492, 2492), (2497, 2500), (2509, 2509),
      (2530, 2531), (2558, 2558), (2561, 2562), (2620, 2620), (2625, 2626), (2631, 2632),
      (2635, 2637), (2641, 2641), (2672, 2673), (2677, 2677), (2689, 2690), (2748, 2748),
      (2753, 2757), (2759, 2760), (2765, 2765), (2786, 2787), (2810, 2815), (2817, 2817),
      (2876, 2876), (2879, 2879), (2881, 2884), (2893, 2893), (2901, 2902), (2914, 2915),
      (2946, 2946), (3008, 3008), (3021, 3021), (3072, 3072), (3076, 3076), (3132, 3132),
      (3134, 3136), (3142, 3144), (3146, 3149), (3157, 3158), (3170, 3171), (3201, 3201),
      (3260, 3260), (3263, 3263), (3270, 3270), (3276, 3277), (3298, 3299), (3328, 3329),
      (3387, 3388), (3393, 3396), (3405, 3405), (3426, 3427), (3457, 3457), (3530, 3530),
      (3538, 3540), (3542, 3542), (3633, 3633), (3636, 3642), (3654, 3662), (3761, 3761),
      (3764, 3772), (3782, 3782), (3784, 3789), (3864, 3865), (3893, 3893), (3895, 3895),
      (3897, 3897), (3953, 3966), (3968, 3972), (3974, 3975), (3981, 3991), (3993, 4028),
      (4038, 4038), (4141, 4144), (4146, 4151), (4153, 4154), (4157, 4158), (4184, 4185),
      (4190, 4192), (4209, 4212), (4226, 4226), (4229, 4230), (4237, 4237), (4253, 4253),
      (4348, 4348), (4957, 4959), (5906, 5908), (5938, 5939), (5970, 5971), (6002, 6003),
      (6068, 6069), (6071, 6077), (6086, 6086), (6089, 6099), (6103, 6103), (6109, 6109),
      (6155, 6159), (6211, 6211), (6277, 6278), (6313, 6313), (6432, 6434), (6439, 6440),
      (6450, 6450), (6457, 6459), (6679, 6680), (6683, 6683), (6742, 6742), (6744, 6750),
      (6752, 6752), (6754, 6754), (6757, 6764), (6771, 6780), (6783, 6783), (6823, 6823),
      (6832, 6862), (6912, 6915), (6964, 6964), (6966, 6970), (6972, 6972), (6978, 6978),
      (7019, 7027), (7040, 7041), (7074, 7077), (7080, 7081), (7083, 7085), (7142, 7142),
      (7144, 7145), (7149, 7149), (7151, 7153), (7212, 7219), (7222, 7223), (7288, 7293),
      (7376, 7378), (7380, 7392), (7394, 7400), (7405, 7405), (7412, 7412), (7416, 7417),
      (7468, 7530), (7544, 7544), (7579, 7679), (8125, 8125), (8127, 8129), (8141, 8143),
      (8157, 8159), (8173, 8175), (8189, 8190), (8203, 8207), (8216, 8217), (8228, 8228),
      (8231, 8231), (8234, 8238), (8288, 8292), (8294, 8303), (8305, 8305), (8319, 8319),
      (8336, 8348), (8400, 8432), (11388, 11389), (11503, 11505), (11631, 11631),
      (11647, 11647), (11744, 11775), (11823, 11823), (12293, 12293), (12330, 12333),
      (12337, 12341), (12347, 12347), (12441, 12446), (12540, 12542), (40981, 40981),
      (42232, 42237), (42508, 42508), (42607, 42610), (42612, 42621), (42623, 42623),
      (42652, 42655), (42736, 42737), (42752, 42785), (42864, 42864), (42888, 42890),
      (42994, 42996), (43000, 43001), (43010, 43010), (43014, 43014), (43019, 43019),
      (43045, 43046), (43052, 43052), (43204, 43205), (43232, 43249), (43263, 43263),
      (43302, 43309), (43335, 43345), (43392, 43394), (43443, 43443), (43446, 43449),
      (43452, 43453), (43471, 43471), (43493, 43494), (43561, 43566), (43569, 43570),
      (43573, 43574), (43587, 43587), (43596, 43596), (43632, 43632), (43644, 43644),
      (43696, 43696), (43698, 43700), (43703, 43704), (43710, 43711), (43713, 43713),
      (43741, 43741), (43756, 43757), (43763, 43764), (43766, 43766), (43867, 43871),
      (43881, 43883), (44005, 44005), (44008, 44008), (44013, 44013), (64286, 64286),
      (64434, 64450), (65024, 65039), (65043, 65043), (65056, 65071), (65106, 65106),
      (65109, 65109), (65279, 65279), (65287, 65287), (65294, 65294), (65306, 65306),
      (65342, 65342), (65344, 65344), (65392, 65392), (65438, 65439), (65507, 65507),
      (65529, 65531), (66045, 66045), (66272, 66272), (66422, 66426), (67456, 67461),
      (67463, 67504), (67506, 67514), (68097, 68099), (68101, 68102), (68108, 68111),
      (68152, 68154), (68159, 68159), (68325, 68326), (68900, 68903), (69291, 69292),
      (69446, 69456), (69506, 69509), (69633, 69633), (69688, 69702), (69744, 69744),
      (69747, 69748), (69759, 69761), (69811, 69814), (69817, 69818), (69821, 69821),
      (69826, 69826), (69837, 69837), (69888, 69890), (69927, 69931), (69933, 69940),
      (70003, 70003), (70016, 70017), (70070, 70078), (70089, 70092), (70095, 70095),
      (70191, 70193), (70196, 70196), (70198, 70199), (70206, 70206), (70367, 70367),
      (70371, 70378), (70400, 70401), (70459, 70460), (70464, 70464), (70502, 70508),
      (70512, 70516), (70712, 70719), (70722, 70724), (70726, 70726), (70750, 70750),
      (70835, 70840), (70842, 70842), (70847, 70848), (70850, 70851), (71090, 71093),
      (71100, 71101), (71103, 71104), (71132, 71133), (71219, 71226), (71229, 71229),
      (71231, 71232), (71339, 71339), (71341, 71341), (71344, 71349), (71351, 71351),
      (71453, 71455), (71458, 71461), (71463, 71467), (71727, 71735), (71737, 71738),
      (71995, 71996), (71998, 71998), (72003, 72003), (72148, 72151), (72154, 72155),
      (72160, 72160), (72193, 72202), (72243, 72248), (72251, 72254), (72263, 72263),
      (72273, 72278), (72281, 72283), (72330, 72342), (72344, 72345), (72752, 72758),
      (72760, 72765), (72767, 72767), (72850, 72871), (72874, 72880), (72882, 72883),
      (72885, 72886), (73009, 73014), (73018, 73018), (73020, 73021), (73023, 73029),
      (73031, 73031), (73104, 73105), (73109, 73109), (73111, 73111), (73459, 73460),
      (78896, 78904), (92912, 92916), (92976, 92982), (92992, 92995), (94031, 94031),
      (94095, 94111), (94176, 94177), (94179, 94180), (110576, 110579), (110581, 110587),
      (110589, 110590), (113821, 113822), (113824, 113827), (118528, 118573),
      (118576, 118598), (119143, 119145), (119155, 119170), (119173, 119179),
      (119210, 119213), (119362, 119364), (121344, 121398), (121403, 121452),
      (121461, 121461), (121476, 121476), (121499, 121503), (121505, 121519),
      (122880, 122886), (122888, 122904), (122907, 122913), (122915, 122916),
      (122918, 122922), (123184, 123197), (123566, 123566), (123628, 123631),
      (125136, 125142), (125252, 125259), (127995, 127999), (917505, 917505),
      (917536, 917631), (917760, 917999)]"

fun in_ranges :: "int \<Rightarrow> (int \<times> int) list \<Rightarrow> bool" where
  "in_ranges c [] = False"
| "in_ranges c ((lo, hi) # rs) = ((lo \<le> c \<and> c \<le> hi) \<or> in_ranges c rs)"

definition is_cased :: "int \<Rightarrow> bool" where
  "is_cased c = in_ranges c cased_ranges"

definition is_case_ignorable :: "int \<Rightarrow> bool" where
  "is_case_ignorable c = in_ranges c case_ignorable_ranges"

text \<open>
  \<open>handle_capital_sigma\<close>: a capital sigma is final when the nearest code point
  before it that is not case-ignorable exists and is cased, and the nearest code point
  after it that is not case-ignorable does not exist or is not cased. \<open>before\<close>
  holds the code points that precede the sigma, the nearest first; \<open>after\<close> those
  that follow it.
\<close>

definition final_sigma :: "pystr \<Rightarrow> pystr \<Rightarrow> bool" where
  "final_sigma before after =
     (case dropWhile is_case_ignorable before of
        [] \<Rightarrow> False
      | c # bs \<Rightarrow>
          is_cased c
          \<and> (case dropWhile is_case_ignorable after of
                [] \<Rightarrow> True
              | d # as \<Rightarrow> \<not> is_cased d))"

fun lower_acc :: "pystr \<Rightarrow> pystr \<Rightarrow> pystr" where
  "lower_acc before [] = []"
| "lower_acc before (c # s) =
     (if c = 931 then [if final_sigma before s then 962 else 963] else to_lower_full c)
     @ lower_acc (c # before) s"

definition lower :: "pystr \<Rightarrow> pystr" where
  "lower s = lower_acc [] s"

text \<open>\<open>str.isspace()\<close> on one code point: the whitespace code points of Unicode.\<close>

definition isspace :: "int \<Rightarrow> bool" where
  "isspace c =
     ((9 \<le> c \<and> c \<le> 13) \<or> (28 \<le> c \<and> c \<le> 32) \<or> c = 133 \<or> c = 160 \<or> c = 5760
      \<or> (8192 \<le> c \<and> c \<le> 8202) \<or> c = 8232 \<or> c = 8233 \<or> c = 8239 \<or> c = 8287
      \<or> c = 12288)"

text \<open>
  \<open>s.split()\<close> with no argument: the maximal runs of non-whitespace code points, in
  order; runs of whitespace separate them and produce no empty token. \<open>cur\<close> is the
  token being read.
\<close>

fun split_acc :: "pystr \<Rightarrow> pystr \<Rightarrow> pystr list" where
  "split_acc cur [] = (if cur = [] then [] else [cur])"
| "split_acc cur (c # s) =
     (if isspace c then (if cur = [] then split_acc [] s else cur # split_acc [] s)
      else split_acc (cur @ [c]) s)"

definition split :: "pystr \<Rightarrow> pystr list" where
  "split s = split_acc [] s"

text \<open>\<open>sep.join(xs)\<close>.\<close>

fun join :: "pystr \<Rightarrow> pystr list \<Rightarrow> pystr" where
  "join sep [] = []"
| "join sep [x] = x"
| "join sep (x # y # zs) = x @ sep @ join sep (y # zs)"

text \<open>\<open>x in s\<close> on strings: \<open>x\<close> occurs in \<open>s\<close> as a contiguous substring.\<close>

fun str_contains :: "pystr \<Rightarrow> pystr \<Rightarrow> bool" where
  "str_contains x [] = (x = [])"
| "str_contains x (c # s) = (take (length x) (c # s) = x \<or> str_contains x s)"

section \<open>Python numbers\<close>

text \<open>
  A Python \<open>float\<close> is an IEEE 754 binary64 number. A finite one is modelled by the
  rational number it denotes; infinities, NaN, the sign of zero, overflow and subnormal
  numbers are outside the model (the exponent is unbounded). Every operation rounds its
  exact result to the nearest double, ties to the even significand.
\<close>

type_synonym pyfloat = rat

text \<open>Rounding a rational to the nearest integer, ties to the even one.\<close>

definition rhe :: "rat \<Rightarrow> int" where
  "rhe x =
     (let f = \<lfloor>x\<rfloor>; d = x - of_int f in
      if d < 1 / 2 then f else if 1 / 2 < d then f + 1 else if even f then f else f + 1)"

text \<open>
  For \<open>x > 0\<close>, the exponent \<open>e\<close> of the unit in the last place of the binade of
  \<open>x\<close>: \<open>2 ^ 52 \<le> x / 2 ^ e < 2 ^ 53\<close>.
\<close>

definition expo :: "rat \<Rightarrow> int" where
  "expo x =
     (if 1 \<le> x then bitlen \<lfloor>x\<rfloor> - 53
      else (let b = bitlen \<lfloor>1 / x\<rfloor> in
            if x = 2 powi (1 - b) then - b - 51 else - b - 52))"

text \<open>The double nearest to the rational \<open>x\<close>.\<close>

definition fl :: "rat \<Rightarrow> pyfloat" where
  "fl x =
     (if x = 0 then 0
      else sgn x * of_int (rhe (\<bar>x\<bar> / 2 powi expo \<bar>x\<bar>)) * 2 powi expo \<bar>x\<bar>)"

definition fadd :: "pyfloat \<Rightarrow> pyfloat \<Rightarrow> pyfloat" where
  "fadd a b = fl (a + b)"

text \<open>
  \<open>round(x, 3)\<close> on a float: the exact value of \<open>x\<close> is rounded to three decimals,
  ties to even, and the decimal is converted back to the nearest double.
\<close>

definition round3 :: "pyfloat \<Rightarrow> pyfloat" where
  "round3 x = fl (of_int (rhe (x * 1000)) / 1000)"

text \<open>The decimal digits of a non-negative integer, as code points.\<close>

function dec :: "int \<Rightarrow> pystr" where
  "dec n = (if n < 10 then [48 + n] else dec (n div 10) @ [48 + n mod 10])"
  by pat_completeness auto
termination
  by (relation "measure nat") auto

text \<open>\<open>format(x, '.2f')\<close>: two decimals of the exact value, ties to even.\<close>

definition fmt2 :: "pyfloat \<Rightarrow> pystr" where
  "fmt2 x =
     (let n = rhe (\<bar>x\<bar> * 100) in
      (if x < 0 then cp ''-'' else []) @ dec (n div 100) @ cp ''.''
      @ [48 + (n div 10) mod 10, 48 + n mod 10])"

text \<open>
  The floats of the embedding arithmetic come from outside and are multiplied, added and
  divided, so there every value of a double is modelled: \<open>Fin x\<close> is the finite
  double \<open>x\<close>, with \<open>Fin 0\<close> the positive zero; \<open>NegZero\<close> is \<open>-0.0\<close>;
  \<open>PInf\<close> and \<open>NInf\<close> are the infinities; \<open>NaN\<close> is not-a-number.
\<close>

datatype xfloat = Fin pyfloat | NegZero | PInf | NInf | NaN

definition is_zero :: "xfloat \<Rightarrow> bool" where
  "is_zero a = (a = Fin 0 \<or> a = NegZero)"

definition is_inf :: "xfloat \<Rightarrow> bool" where
  "is_inf a = (a = PInf \<or> a = NInf)"

fun sign_bit :: "xfloat \<Rightarrow> bool" where
  "sign_bit (Fin x) = (x < 0)"
| "sign_bit NegZero = True"
| "sign_bit PInf = False"
| "sign_bit NInf = True"
| "sign_bit NaN = False"

fun fval :: "xfloat \<Rightarrow> rat" where
  "fval (Fin x) = x"
| "fval a = 0"

definition zero_of :: "bool \<Rightarrow> xfloat" where
  "zero_of negative = (if negative then NegZero else Fin 0)"

definition inf_of :: "bool \<Rightarrow> xfloat" where
  "inf_of negative = (if negative then NInf else PInf)"

text \<open>
  The double nearest to a rational, in the format itself: the exponent \<open>e\<close> of the
  last place is at least \<open>-1074\<close> (subnormal numbers), and a result that rounds to
  zero keeps the sign. The largest finite double is \<open>(2 ^ 53 - 1) * 2 ^ 971\<close>: a
  result with \<open>e > 971\<close>, or with \<open>e = 971\<close> and the significand rounded up to
  \<open>2 ^ 53\<close>, is \<open>2 ^ 1024\<close> or more and becomes an infinity.
\<close>

definition fl64 :: "rat \<Rightarrow> xfloat" where
  "fl64 x =
     (if x = 0 then Fin 0
      else (let e = max (expo \<bar>x\<bar>) (- 1074); m = rhe (\<bar>x\<bar> / 2 powi e) in
            if m = 0 then zero_of (x < 0)
            else if 971 < e \<or> (e = 971 \<and> m = 2 ^ 53) then inf_of (x < 0)
            else Fin (sgn x * of_int m * 2 powi e)))"

text \<open>\<open>a * b\<close> on two floats.\<close>

definition xmul :: "xfloat \<Rightarrow> xfloat \<Rightarrow> xfloat" where
  "xmul a b =
     (if a = NaN \<or> b = NaN then NaN
      else if is_inf a \<or> is_inf b then
        (if is_zero a \<or> is_zero b then NaN else inf_of (sign_bit a \<noteq> sign_bit b))
      else if is_zero a \<or> is_zero b then zero_of (sign_bit a \<noteq> sign_bit b)
      else fl64 (fval a * fval b))"

text \<open>\<open>a + b\<close> on two floats; an exact sum of zero is the positive zero, unless both
  operands are the negative zero.\<close>

definition xadd :: "xfloat \<Rightarrow> xfloat \<Rightarrow> xfloat" where
  "xadd a b =
     (if a = NaN \<or> b = NaN then NaN
      else if is_inf a then (if is_inf b \<and> a \<noteq> b then NaN else a)
      else if is_inf b then b
      else if a = NegZero \<and> b = NegZero then NegZero
      else if fval a + fval b = 0 then Fin 0
      else fl64 (fval a + fval b))"

text \<open>
  \<open>round(x, 3)\<close> on any float: a finite value is rounded as by \<open>round3\<close> and keeps
  its sign when the result is zero; the other values are returned as they are.
\<close>

fun xround3 :: "xfloat \<Rightarrow> xfloat" where
  "xround3 (Fin x) = (if round3 x = 0 then zero_of (x < 0) else Fin (round3 x))"
| "xround3 a = a"

text \<open>\<open>a >= y\<close> for a finite float \<open>y\<close>; it is false on \<open>NaN\<close>.\<close>

fun xge :: "xfloat \<Rightarrow> pyfloat \<Rightarrow> bool" where
  "xge (Fin x) y = (y \<le> x)"
| "xge NegZero y = (y \<le> 0)"
| "xge PInf y = True"
| "xge NInf y = False"
| "xge NaN y = False"

text \<open>\<open>format(a, '.2f')\<close> on any float.\<close>

fun xfmt2 :: "xfloat \<Rightarrow> pystr" where
  "xfmt2 (Fin x) = fmt2 x"
| "xfmt2 NegZero = cp ''-0.00''"
| "xfmt2 PInf = cp ''inf''"
| "xfmt2 NInf = cp ''-inf''"
| "xfmt2 NaN = cp ''nan''"

section \<open>Exceptions and effects\<close>

text \<open>
  An exception is a value: its class and its message (\<open>str(e)\<close>). The classes are those
  the code names or can meet; \<open>OtherException\<close> stands for any other subclass of
  \<open>Exception\<close>. \<open>KeyboardInterrupt\<close> and \<open>SystemExit\<close>, which are not subclasses of
  \<open>Exception\<close>, are outside the model.
\<close>

datatype exn_kind =
  ZeroDivisionError | IndexError | TooManyRequestsError | RuntimeError | OtherException

datatype exn = Exn (kind: exn_kind) (msg: pystr)

text \<open>
  What a call does to the outside world, in order: the sleeps and the requests to the
  external services. Console output is not modelled.
\<close>

datatype event =
  Sleep rat
| DatastoreSearch pystr int
| CohereRerank pystr pystr "pystr list" int
| InvokeAI pystr pystr
| EmbeddingsCreate pystr "pystr list"

text \<open>
  The external collaborators, whose code is not part of the repository. Each is the
  outcome of a call as a function of its arguments: an exception or a value.
  \<^item> \<open>datastore_search query top_k\<close>: \<open>BaseDatastore.search\<close>;
  \<^item> \<open>co_rerank attempt query documents top_n\<close>: the call of \<open>co.rerank\<close> made in
    iteration \<open>attempt\<close> of the retry loop, returning the \<open>index\<close> field of each
    result in order (the service may answer each call differently);
  \<^item> \<open>invoke_ai system_message user_message\<close>: the chat completion;
  \<^item> \<open>sm_ratio a b\<close>: \<open>difflib.SequenceMatcher(None, a, b).ratio()\<close>;
  \<^item> \<open>embeddings_create text_a text_b\<close>: the embedding request, returning the two
    vectors \<open>emb.data[0].embedding\<close> and \<open>emb.data[1].embedding\<close>;
  \<^item> \<open>pow_half x\<close>: the float power \<open>x ** 0.5\<close> of the C library, on a sum of
    squares.
\<close>

record services =
  datastore_search :: "pystr \<Rightarrow> int \<Rightarrow> exn + pystr list"
  co_rerank :: "nat \<Rightarrow> pystr \<Rightarrow> pystr list \<Rightarrow> int \<Rightarrow> exn + int list"
  invoke_ai :: "pystr \<Rightarrow> pystr \<Rightarrow> exn + pystr"
  sm_ratio :: "pystr \<Rightarrow> pystr \<Rightarrow> exn + pyfloat"
  embeddings_create :: "pystr \<Rightarrow> pystr \<Rightarrow> exn + (xfloat list \<times> xfloat list)"
  pow_half :: "xfloat \<Rightarrow> xfloat"

text \<open>\<open>a / b\<close> on two \<open>int\<close>: the correctly rounded quotient.\<close>

definition truediv :: "int \<Rightarrow> int \<Rightarrow> exn + pyfloat" where
  "truediv a b =
     (if b = 0 then Inl (Exn ZeroDivisionError (cp ''division by zero''))
      else Inr (fl (of_int a / of_int b)))"

text \<open>
  \<open>a / b\<close> on two floats: Python raises when the divisor is a zero of either sign,
  whatever the dividend; otherwise the quotient is that of the format.
\<close>

definition xdiv :: "xfloat \<Rightarrow> xfloat \<Rightarrow> exn + xfloat" where
  "xdiv a b =
     (if is_zero b then Inl (Exn ZeroDivisionError (cp ''float division by zero''))
      else if a = NaN \<or> b = NaN then Inr NaN
      else if is_inf a then
        (if is_inf b then Inr NaN else Inr (inf_of (sign_bit a \<noteq> sign_bit b)))
      else if is_inf b then Inr (zero_of (sign_bit a \<noteq> sign_bit b))
      else if is_zero a then Inr (zero_of (sign_bit a \<noteq> sign_bit b))
      else Inr (fl64 (fval a / fval b)))"

text \<open>
  \<open>xs[i]\<close> on a list: a negative index counts from the end, an index out of range raises
  \<open>IndexError\<close>.
\<close>

definition py_index :: "'a list \<Rightarrow> int \<Rightarrow> exn + 'a" where
  "py_index xs i =
     (if 0 \<le> i \<and> i < int (length xs) then Inr (xs ! nat i)
      else if - int (length xs) \<le> i \<and> i < 0 then Inr (xs ! nat (int (length xs) + i))
      else Inl (Exn IndexError (cp ''list index out of range'')))"

text \<open>\<open>[xs[i] for i in idx]\<close>: stops at the first index that raises.\<close>

fun index_all :: "'a list \<Rightarrow> int list \<Rightarrow> exn + 'a list" where
  "index_all xs [] = Inr []"
| "index_all xs (i # idx) =
     (case py_index xs i of
        Inl e \<Rightarrow> Inl e
      | Inr x \<Rightarrow> (case index_all xs idx of Inl e \<Rightarrow> Inl e | Inr ys \<Rightarrow> Inr (x # ys)))"

section \<open>Guardrail filter (rag\_pipeline.py)\<close>

definition investment_terms :: "pystr list" where
  "investment_terms =
     [cp ''comprar'', cp ''vender'', cp ''inversi'' @ [243] @ cp ''n'',
      cp ''rentabilidad futura'']"

definition prediction_terms :: "pystr list" where
  "prediction_terms =
     [cp ''predicci'' @ [243] @ cp ''n'', cp ''proyecci'' @ [243] @ cp ''n'',
      cp ''estimado'']"

definition INVESTMENT_REFUSAL :: pystr where
  "INVESTMENT_REFUSAL =
     [9888, 65039] @ cp '' No se permiten recomendaciones de inversi'' @ [243]
     @ cp ''n ni proyecciones financieras.''"

definition PREDICTION_REFUSAL :: pystr where
  "PREDICTION_REFUSAL =
     [9888, 65039] @ cp '' El sistema no realiza estimaciones ni predicciones.''
     @ cp '' Solo resume informaci'' @ [243] @ cp ''n factual.''"

definition SOURCE_SUFFIX :: pystr where
  "SOURCE_SUFFIX =
     [10, 10, 128216] @ cp '' Fuente: Documentos IFRS p'' @ [250]
     @ cp ''blicos o reportes oficiales.''"

definition ethical_guardrails :: "pystr \<Rightarrow> pystr" where
  "ethical_guardrails response_text =
     (let lowered = lower response_text in
      if list_ex (\<lambda>x. str_contains x lowered) investment_terms then INVESTMENT_REFUSAL
      else if list_ex (\<lambda>x. str_contains x lowered) prediction_terms then PREDICTION_REFUSAL
      else response_text @ SOURCE_SUFFIX)"

section \<open>Groundedness and metrics (rag\_pipeline.py)\<close>

definition is_grounded_in_context :: "pystr \<Rightarrow> pystr list \<Rightarrow> bool" where
  "is_grounded_in_context resp0 context_list =
     (let context_text = lower (join (cp '' '') context_list);
          resp = lower resp0;
          match_ratio =
            fl (of_nat (card (set (split resp) \<inter> set (split context_text)))
                / of_nat (max 1 (length (split resp))))
      in fl (15 / 100) < match_ratio)"

record EvaluationResult =
  question :: pystr
  response :: pystr
  expected_answer :: pystr
  is_correct :: bool
  reasoning :: pystr

text \<open>The dictionary that \<open>compute_metrics\<close> returns, with its three keys.\<close>

record MetricsSummary =
  accuracy :: pyfloat
  groundedness :: pyfloat
  hallucination_rate :: pyfloat

definition compute_metrics :: "EvaluationResult list \<Rightarrow> exn + MetricsSummary" where
  "compute_metrics results =
     (let total = int (length results);
          correct = (\<Sum>r\<leftarrow>results. if is_correct r then 1 else 0);
          grounded =
            (\<Sum>r\<leftarrow>results.
               if is_grounded_in_context (response r) [expected_answer r] then 1 else 0);
          hallucinated =
            (\<Sum>r\<leftarrow>filter (\<lambda>r. \<not> is_grounded_in_context (response r) [expected_answer r])
                  results. 1)
      in case truediv correct total of
           Inl e \<Rightarrow> Inl e
         | Inr a \<Rightarrow>
             (case truediv grounded total of
                Inl e \<Rightarrow> Inl e
              | Inr g \<Rightarrow>
                  (case truediv hallucinated total of
                     Inl e \<Rightarrow> Inl e
                   | Inr h \<Rightarrow>
                       Inr \<lparr>accuracy = round3 a, groundedness = round3 g,
                            hallucination_rate = round3 h\<rparr>)))"

section \<open>Evaluator (impl/evaluator.py)\<close>

text \<open>\<open>Evaluator._text_similarity\<close>.\<close>

definition text_similarity :: "services \<Rightarrow> pystr \<Rightarrow> pystr \<Rightarrow> exn + pyfloat" where
  "text_similarity env text_a text_b =
     (case sm_ratio env (lower text_a) (lower text_b) of
        Inl e \<Rightarrow> Inl e
      | Inr ratio \<Rightarrow> Inr (round3 ratio))"

text \<open>
  \<open>sum(a * b for a, b in zip(vec_a, vec_b))\<close>: the products are added from the left,
  starting from \<open>0\<close> (CPython 3.11 adds floats one by one). The sum of the squares of
  a vector is \<open>dot\<close> of the vector with itself.
\<close>

definition dot :: "xfloat list \<Rightarrow> xfloat list \<Rightarrow> xfloat" where
  "dot vec_a vec_b = foldl xadd (Fin 0) (map (\<lambda>(a, b). xmul a b) (zip vec_a vec_b))"

text \<open>The cosine similarity of two embedding vectors, as the code computes it.\<close>

definition cosine :: "services \<Rightarrow> xfloat list \<Rightarrow> xfloat list \<Rightarrow> exn + xfloat" where
  "cosine env vec_a vec_b =
     (let d = dot vec_a vec_b;
          norm_a = pow_half env (dot vec_a vec_a);
          norm_b = pow_half env (dot vec_b vec_b)
      in xdiv d (xmul norm_a norm_b))"

text \<open>The body of the \<open>try\<close> block of \<open>Evaluator._semantic_similarity\<close>, after the sleep.\<close>

definition cosine_body :: "services \<Rightarrow> pystr \<Rightarrow> pystr \<Rightarrow> exn + xfloat" where
  "cosine_body env text_a text_b =
     (case embeddings_create env text_a text_b of
        Inl e \<Rightarrow> Inl e
      | Inr (vec_a, vec_b) \<Rightarrow>
          (case cosine env vec_a vec_b of
             Inl e \<Rightarrow> Inl e
           | Inr cosine_sim \<Rightarrow> Inr (xround3 cosine_sim)))"

text \<open>
  \<open>Evaluator._semantic_similarity\<close>: any exception of the body is caught and the score
  is \<open>0.0\<close>.
\<close>

definition EMBEDDING_MODEL :: pystr where
  "EMBEDDING_MODEL = cp ''text-embedding-3-small''"

definition semantic_similarity :: "services \<Rightarrow> pystr \<Rightarrow> pystr \<Rightarrow> xfloat \<times> event list" where
  "semantic_similarity env text_a text_b =
     (case cosine_body env text_a text_b of Inl e \<Rightarrow> Fin 0 | Inr score \<Rightarrow> score,
      [Sleep (3 / 2), EmbeddingsCreate EMBEDDING_MODEL [text_a, text_b]])"

definition VERDICT_OK :: pystr where
  "VERDICT_OK =
     [9989] @ cp '' La respuesta coincide con la esperada o es sem'' @ [225]
     @ cp ''nticamente equivalente.''"

definition VERDICT_KO :: pystr where
  "VERDICT_KO =
     [10060] @ cp '' La respuesta no coincide ni sem'' @ [225]
     @ cp ''nticamente con la esperada.''"

definition ERROR_PREFIX :: pystr where
  "ERROR_PREFIX = [9888, 65039] @ cp '' Error en evaluaci'' @ [243] @ cp ''n: ''"

text \<open>
  The \<open>try\<close> block of \<open>Evaluator.evaluate\<close>: the verdict and the reasoning, or the
  exception that left the block, with the events of the block.
\<close>

definition evaluate_try ::
  "services \<Rightarrow> pystr \<Rightarrow> pystr \<Rightarrow> (exn + bool \<times> pystr) \<times> event list" where
  "evaluate_try env resp expected =
     (case text_similarity env resp expected of
        Inl e \<Rightarrow> (Inl e, [])
      | Inr similarity \<Rightarrow>
          (let correct0 = (fl (75 / 100) \<le> similarity);
               reasoning0 = cp ''Similarity: '' @ fmt2 similarity @ cp ''. ''
           in if \<not> correct0 then
                (let (semantic_score, evs) = semantic_similarity env resp expected;
                     reasoning1 =
                       reasoning0 @ cp ''Semantic Similarity: '' @ xfmt2 semantic_score
                       @ cp ''. '';
                     correct1 = xge semantic_score (fl (80 / 100))
                 in (Inr (correct1,
                          reasoning1 @ (if correct1 then VERDICT_OK else VERDICT_KO)),
                     evs))
              else (Inr (correct0, reasoning0 @ VERDICT_OK), [])))"

text \<open>\<open>Evaluator.evaluate\<close>: the \<open>try\<close> block, its handler and the result.\<close>

definition evaluate ::
  "services \<Rightarrow> pystr \<Rightarrow> pystr \<Rightarrow> pystr \<Rightarrow> EvaluationResult \<times> event list" where
  "evaluate env q resp expected =
     (case evaluate_try env resp expected of
        (Inl e, evs) \<Rightarrow>
          (\<lparr>question = q, response = resp, expected_answer = expected,
            is_correct = False, reasoning = ERROR_PREFIX @ msg e\<rparr>, evs)
      | (Inr (correct, why), evs) \<Rightarrow>
          (\<lparr>question = q, response = resp, expected_answer = expected,
            is_correct = correct, reasoning = why\<rparr>, evs))"

section \<open>Retriever (impl/retriever.py)\<close>

definition RERANK_MODEL :: pystr where
  "RERANK_MODEL = cp ''rerank-multilingual-v3.5''"

definition TOO_MANY_ATTEMPTS :: exn where
  "TOO_MANY_ATTEMPTS = Exn RuntimeError (cp ''Demasiados intentos fallidos con Cohere'')"

text \<open>
  The \<open>for attempt in range(5)\<close> loop of \<open>Retriever._rerank\<close> over the attempts that
  remain: \<open>break\<close> on a response, \<open>else\<close> when the attempts are used up. An exception
  other than \<open>TooManyRequestsError\<close> leaves the loop at once.
\<close>

fun rerank_loop ::
  "services \<Rightarrow> pystr \<Rightarrow> pystr list \<Rightarrow> int \<Rightarrow> nat list \<Rightarrow> (exn + int list) \<times> event list" where
  "rerank_loop env query search_results top_k [] = (Inl TOO_MANY_ATTEMPTS, [])"
| "rerank_loop env query search_results top_k (attempt # rest) =
     (case co_rerank env attempt query search_results top_k of
        Inr result_indices \<Rightarrow>
          (Inr result_indices,
           [Sleep 10, CohereRerank RERANK_MODEL query search_results top_k])
      | Inl e \<Rightarrow>
          if kind e = TooManyRequestsError then
            (let wait = 10 * (int attempt + 1);
                 (r, evs) = rerank_loop env query search_results top_k rest
             in (r, [Sleep 10, CohereRerank RERANK_MODEL query search_results top_k,
                     Sleep (of_int wait)] @ evs))
          else (Inl e, [Sleep 10, CohereRerank RERANK_MODEL query search_results top_k]))"

text \<open>\<open>Retriever._rerank\<close>.\<close>

definition rerank ::
  "services \<Rightarrow> pystr \<Rightarrow> pystr list \<Rightarrow> int \<Rightarrow> (exn + pystr list) \<times> event list" where
  "rerank env query search_results top_k =
     (case rerank_loop env query search_results top_k [0..<5] of
        (Inl e, evs) \<Rightarrow> (Inl e, Sleep 6 # evs)
      | (Inr result_indices, evs) \<Rightarrow> (index_all search_results result_indices, Sleep 6 # evs))"

text \<open>\<open>Retriever.search\<close>.\<close>

definition search ::
  "services \<Rightarrow> pystr \<Rightarrow> int \<Rightarrow> (exn + pystr list) \<times> event list" where
  "search env query top_k =
     (case datastore_search env query (top_k * 3) of
        Inl e \<Rightarrow> (Inl e, [DatastoreSearch query (top_k * 3)])
      | Inr search_results \<Rightarrow>
          (let (reranked_results, evs) = rerank env query search_results top_k
           in (reranked_results, DatastoreSearch query (top_k * 3) # evs)))"

section \<open>ResponseGenerator (impl/response\_generator.py)\<close>

definition SYSTEM_PROMPT :: pystr where
  "SYSTEM_PROMPT =
     [10] @ cp ''Eres un analista financiero experto en empresas argentinas.'' @ [10]
     @ cp ''Responde en espa'' @ [241]
     @ cp ''ol con base EXCLUSIVA en el contexto provisto.'' @ [10]
     @ cp ''Tu tarea es interpretar correctamente t'' @ [233]
     @ cp ''rminos financieros y sus equivalentes abreviados'' @ [10]
     @ cp ''(por ejemplo: '' @ [34] @ cp ''EBITDA Aj.'' @ [34] @ cp '' = '' @ [34]
     @ cp ''EBITDA Ajustado'' @ [34] @ cp '', '' @ [34] @ cp ''Flujo libre'' @ [34]
     @ cp '' = '' @ [34] @ cp ''FCF'' @ [34] @ cp '').'' @ [10]
     @ cp ''Entiende sin'' @ [243]
     @ cp ''nimos y siglas, y prioriza los datos consolidados sobre ''
     @ cp ''los de segmentos.'' @ [10]
     @ cp ''Si hay n'' @ [250] @ cp ''meros o valores expl'' @ [237] @ cp ''citos, devu''
     @ [233] @ cp ''lvelos de forma clara y unificada.'' @ [10]
     @ cp ''Si el dato no est'' @ [225] @ cp '' en el texto, razona con lo m'' @ [225]
     @ cp ''s cercano posible dentro del contexto, pero no inventes.'' @ [10]"

definition generate_response ::
  "services \<Rightarrow> pystr \<Rightarrow> pystr list \<Rightarrow> (exn + pystr) \<times> event list" where
  "generate_response env query context =
     (let context_text = join [10] context;
          user_message =
            cp ''<context>'' @ [10] @ context_text @ [10] @ cp ''</context>'' @ [10]
            @ cp ''<question>'' @ [10] @ query @ [10] @ cp ''</question>''
      in (invoke_ai env SYSTEM_PROMPT user_message, [InvokeAI SYSTEM_PROMPT user_message]))"

section \<open>RAGPipeline (rag\_pipeline.py)\<close>

text \<open>\<open>RAGPipeline.process_query\<close>, with the repository's \<open>Retriever\<close> and
  \<open>ResponseGenerator\<close> as its components; \<open>search\<close> is called with its default
  \<open>top_k = 10\<close>.\<close>

definition process_query :: "services \<Rightarrow> pystr \<Rightarrow> (exn + pystr) \<times> event list" where
  "process_query env query =
     (case search env query 10 of
        (Inl e, evs) \<Rightarrow> (Inl e, evs)
      | (Inr search_results, evs) \<Rightarrow>
          (case generate_response env query search_results of
             (Inl e, evs') \<Rightarrow> (Inl e, evs @ evs')
           | (Inr resp, evs') \<Rightarrow> (Inr (ethical_guardrails resp), evs @ evs')))"

section \<open>Counts and sample inputs used in the claims\<close>

text \<open>
  The counts that the specification names: \<open>C\<close>, the results marked correct, and
  \<open>G\<close>, the results whose response is grounded in the one-element context made of
  their own expected answer.
\<close>

definition correct_count :: "EvaluationResult list \<Rightarrow> nat" where
  "correct_count results = length (filter is_correct results)"

definition grounded_count :: "EvaluationResult list \<Rightarrow> nat" where
  "grounded_count results =
     length (filter (\<lambda>r. is_grounded_in_context (response r) [expected_answer r]) results)"

text \<open>
  A batch of 80 results: one correct and grounded (response and expected answer
  \<open>si\<close>), 79 incorrect and not grounded (response \<open>no\<close>, expected answer \<open>si\<close>).
\<close>

definition hit :: EvaluationResult where
  "hit = \<lparr>question = cp ''q'', response = cp ''si'', expected_answer = cp ''si'',
          is_correct = True, reasoning = []\<rparr>"

definition miss :: EvaluationResult where
  "miss = \<lparr>question = cp ''q'', response = cp ''no'', expected_answer = cp ''si'',
           is_correct = False, reasoning = []\<rparr>"

definition batch80 :: "EvaluationResult list" where
  "batch80 = replicate 79 miss @ [hit]"

text \<open>
  Sample worlds. In \<open>world_ok\<close> every service answers: the datastore returns three
  passages, the reranker the indices 2 and 0, the chat completion a fixed answer, the
  sequence matcher 1.0 on equal strings and 0.0 otherwise, the embedding service two
  equal unit vectors. The others differ from it in one service, except
  \<open>world_near_threshold\<close>: there the sequence matcher answers 380/507, the ratio that
  \<open>difflib\<close> gives for \<open>near_response\<close> against \<open>near_expected\<close> (190 matching
  characters out of 308 + 199), and the embedding service two orthogonal vectors.
\<close>

definition world_ok :: services where
  "world_ok =
     \<lparr>datastore_search = (\<lambda>query top_k. Inr [cp ''uno'', cp ''dos'', cp ''tres'']),
      co_rerank = (\<lambda>attempt query documents top_n. Inr [2, 0]),
      invoke_ai = (\<lambda>system_message user_message. Inr (cp ''El EBITDA fue 10'')),
      sm_ratio = (\<lambda>a b. Inr (if a = b then 1 else 0)),
      embeddings_create = (\<lambda>text_a text_b. Inr ([Fin 1], [Fin 1])),
      pow_half = (\<lambda>x. x)\<rparr>"

definition near_response :: pystr where
  "near_response = replicate 190 120 @ replicate 118 121"

definition near_expected :: pystr where
  "near_expected = replicate 190 120 @ replicate 9 122"

definition world_near_threshold :: services where
  "world_near_threshold =
     world_ok\<lparr>sm_ratio := \<lambda>a b. Inr (fl (380 / 507)),
              embeddings_create := \<lambda>text_a text_b. Inr ([Fin 1, Fin 0], [Fin 0, Fin 1])\<rparr>"

definition world_embeddings_down :: services where
  "world_embeddings_down =
     world_ok\<lparr>embeddings_create :=
                \<lambda>text_a text_b. Inl (Exn OtherException (cp ''connection refused''))\<rparr>"

definition world_matcher_fails :: services where
  "world_matcher_fails =
     world_ok\<lparr>sm_ratio := \<lambda>a b. Inl (Exn OtherException (cp ''out of memory''))\<rparr>"

definition world_limited_once :: services where
  "world_limited_once =
     world_ok\<lparr>co_rerank :=
                \<lambda>attempt query documents top_n.
                  if attempt = 0 then Inl (Exn TooManyRequestsError (cp ''too many requests''))
                  else Inr [2, 0]\<rparr>"

definition world_limited_always :: services where
  "world_limited_always =
     world_ok\<lparr>co_rerank :=
                \<lambda>attempt query documents top_n.
                  Inl (Exn TooManyRequestsError (cp ''too many requests''))\<rparr>"

definition world_rerank_broken :: services where
  "world_rerank_broken =
     world_ok\<lparr>co_rerank :=
                \<lambda>attempt query documents top_n.
                  if attempt = 0 then Inl (Exn TooManyRequestsError (cp ''too many requests''))
                  else Inl (Exn OtherException (cp ''bad request''))\<rparr>"

text \<open>
  Vocabulary for the retry loop: attempt \<open>a\<close> is rate limited when its call raises
  \<open>TooManyRequestsError\<close>; the events of such an attempt are the 10-second sleep, the
  request and the back-off sleep of \<open>10 * (a + 1)\<close> seconds; \<open>rerank_calls\<close> counts the
  requests to the reranker in a trace.
\<close>

definition rate_limited :: "services \<Rightarrow> pystr \<Rightarrow> pystr list \<Rightarrow> int \<Rightarrow> nat \<Rightarrow> bool" where
  "rate_limited env query docs top_k a =
     (case co_rerank env a query docs top_k of
        Inl e \<Rightarrow> kind e = TooManyRequestsError
      | Inr idx \<Rightarrow> False)"

definition failed_attempt :: "pystr \<Rightarrow> pystr list \<Rightarrow> int \<Rightarrow> nat \<Rightarrow> event list" where
  "failed_attempt query docs top_k a =
     [Sleep 10, CohereRerank RERANK_MODEL query docs top_k, Sleep (of_int (10 * (int a + 1)))]"

fun is_rerank_call :: "event \<Rightarrow> bool" where
  "is_rerank_call (CohereRerank m q d k) = True"
| "is_rerank_call ev = False"

fun is_datastore_call :: "event \<Rightarrow> bool" where
  "is_datastore_call (DatastoreSearch q k) = True"
| "is_datastore_call ev = False"

definition rerank_calls :: "event list \<Rightarrow> nat" where
  "rerank_calls evs = length (filter is_rerank_call evs)"

section \<open>Properties of the float model\<close>

lemma rhe_floor_le: "\<lfloor>x\<rfloor> \<le> rhe x"
  unfolding rhe_def Let_def by auto

lemma rhe_le_floor: "rhe x \<le> \<lfloor>x\<rfloor> + 1"
  unfolding rhe_def Let_def by auto

lemma rhe_of_int: "rhe (of_int n) = n"
  unfolding rhe_def Let_def by simp

lemma rhe_mono: 
  assumes "x \<le> y" shows "rhe x \<le> rhe y"
proof (cases "\<lfloor>x\<rfloor> = \<lfloor>y\<rfloor>")
  case True
  with assms show ?thesis unfolding rhe_def Let_def by auto
next
  case False
  with assms have "\<lfloor>x\<rfloor> < \<lfloor>y\<rfloor>" by (simp add: floor_mono order.not_eq_order_implies_strict)
  then have "rhe x \<le> \<lfloor>y\<rfloor>" using rhe_le_floor [of x] by linarith
  then show ?thesis using rhe_floor_le [of y] by linarith
qed

lemma scale_bounds:
  fixes x :: rat
  assumes "2 powi L \<le> x" "x < 2 powi (L + 1)"
  shows "2 ^ 52 \<le> x / 2 powi (L - 52)" "x / 2 powi (L - 52) < 2 ^ 53"
proof -
  have pos: "(0::rat) < 2 powi (L - 52)" by simp
  have a: "(2::rat) ^ 52 * 2 powi (L - 52) = 2 powi L"
    using power_int_add [of "2::rat" 52 "L - 52"] by simp
  have b: "(2::rat) ^ 53 * 2 powi (L - 52) = 2 powi (L + 1)"
    using power_int_add [of "2::rat" 53 "L - 52"] by (simp add: add.commute)
  show "2 ^ 52 \<le> x / 2 powi (L - 52)"
    using assms(1) a pos by (simp add: pos_le_divide_eq)
  show "x / 2 powi (L - 52) < 2 ^ 53"
    using assms(2) b pos by (simp add: pos_divide_less_eq)
qed

lemma floor_bitlen_bounds:
  fixes x :: rat
  assumes "1 \<le> x"
  shows "2 powi (bitlen \<lfloor>x\<rfloor> - 1) \<le> x" "x < 2 powi (bitlen \<lfloor>x\<rfloor>)"
proof -
  let ?n = "\<lfloor>x\<rfloor>"
  have n: "0 < ?n" using assms by simp
  from bitlen_bounds [OF n] have lo: "2 ^ nat (bitlen ?n - 1) \<le> ?n" and hi: "?n < 2 ^ nat (bitlen ?n)"
    by auto
  have b1: "1 \<le> bitlen ?n" using n bitlen_eq_zero_iff [of ?n] bitlen_nonneg [of ?n] by linarith
  have "(2::rat) powi (bitlen ?n - 1) = 2 ^ nat (bitlen ?n - 1)"
    using b1 by (simp add: power_int_def)
  also have "\<dots> = of_int (2 ^ nat (bitlen ?n - 1))" by simp
  also have "\<dots> \<le> of_int ?n" using lo by (simp only: of_int_le_iff)
  also have "\<dots> \<le> x" by simp
  finally show "2 powi (bitlen \<lfloor>x\<rfloor> - 1) \<le> x" .
  have "?n + 1 \<le> 2 ^ nat (bitlen ?n)" using hi by simp
  then have "(of_int (?n + 1) :: rat) \<le> of_int (2 ^ nat (bitlen ?n))" by (simp only: of_int_le_iff)
  moreover have "x < of_int (?n + 1)" by linarith
  moreover have "(2::rat) powi (bitlen ?n) = 2 ^ nat (bitlen ?n)"
    using b1 by (simp add: power_int_def)
  ultimately show "x < 2 powi (bitlen \<lfloor>x\<rfloor>)" by simp
qed

lemma expo_bounds:
  fixes x :: rat
  assumes "0 < x"
  shows "2 ^ 52 \<le> x / 2 powi expo x" "x / 2 powi expo x < 2 ^ 53"
proof -
  have "2 ^ 52 \<le> x / 2 powi expo x \<and> x / 2 powi expo x < 2 ^ 53"
  proof (cases "1 \<le> x")
    case True
    then have e: "expo x = (bitlen \<lfloor>x\<rfloor> - 1) - 52" by (simp add: expo_def)
    from floor_bitlen_bounds [OF True] scale_bounds [of "bitlen \<lfloor>x\<rfloor> - 1" x]
    show ?thesis unfolding e by simp
  next
    case False
    define y where "y = 1 / x"
    define b where "b = bitlen \<lfloor>y\<rfloor>"
    have y1: "1 \<le> y" using False assms by (simp add: y_def)
    have ypos: "0 < y" using y1 by linarith
    have xy: "x = 1 / y" by (simp add: y_def)
    from floor_bitlen_bounds [OF y1] have lo: "2 powi (b - 1) \<le> y" and hi: "y < 2 powi b"
      by (simp_all add: b_def)
    have hi': "2 powi (- b) < x"
    proof -
      have "1 / (2 powi b) < 1 / y" using hi ypos by (simp add: frac_less2)
      then show ?thesis by (simp add: xy power_int_minus_divide)
    qed
    have lo': "x \<le> 2 powi (1 - b)"
    proof -
      have "(0::rat) < 2 powi (b - 1)" by simp
      then have "1 / y \<le> 1 / (2 powi (b - 1))" using lo by (simp add: frac_le)
      moreover have "(2::rat) powi (1 - b) = 1 / 2 powi (b - 1)"
        using power_int_minus_divide [of "2::rat" "b - 1"] by simp
      ultimately show ?thesis by (simp add: xy)
    qed
    show ?thesis
    proof (cases "x = 2 powi (1 - b)")
      case True
      then have e: "expo x = (1 - b) - 52" using False by (simp add: expo_def Let_def b_def y_def)
      have "x < 2 powi ((1 - b) + 1)" unfolding True by (rule power_int_strict_increasing) simp_all
      with True scale_bounds [of "1 - b" x] show ?thesis unfolding e by simp
    next
      case ne: False
      then have e: "expo x = (- b) - 52" using False by (simp add: expo_def Let_def b_def y_def)
      have "x < 2 powi ((- b) + 1)" using lo' ne by (simp add: add.commute)
      with hi' scale_bounds [of "- b" x] show ?thesis unfolding e by simp
    qed
  qed
  then show "2 ^ 52 \<le> x / 2 powi expo x" "x / 2 powi expo x < 2 ^ 53" by simp_all
qed

lemma binade_order:
  fixes x :: rat
  assumes "2 ^ 52 * 2 powi a \<le> x" "x < 2 ^ 53 * 2 powi b"
  shows "a \<le> b"
proof (rule ccontr)
  assume "\<not> a \<le> b"
  then have "b + 1 \<le> a" by simp
  then have "(2::rat) powi (b + 1) \<le> 2 powi a" by (intro power_int_increasing) simp_all
  moreover have "(2::rat) powi (b + 1) = 2 * 2 powi b"
    using power_int_add [of "2::rat" 1 b] by (simp add: add.commute)
  ultimately have "(2::rat) ^ 53 * 2 powi b \<le> 2 ^ 52 * 2 powi a" by simp
  with assms show False by linarith
qed

lemma expo_scaled:
  fixes x :: rat
  assumes "0 < x"
  shows "2 ^ 52 * 2 powi expo x \<le> x" "x < 2 ^ 53 * 2 powi expo x"
  using expo_bounds [OF assms] by (simp_all add: pos_le_divide_eq pos_divide_less_eq)

lemma expo_unique:
  fixes x :: rat
  assumes "0 < x" "2 ^ 52 \<le> x / 2 powi e" "x / 2 powi e < 2 ^ 53"
  shows "expo x = e"
proof -
  have a: "2 ^ 52 * 2 powi e \<le> x" "x < 2 ^ 53 * 2 powi e"
    using assms(2,3) by (simp_all add: pos_le_divide_eq pos_divide_less_eq)
  have "expo x \<le> e" using binade_order [OF expo_scaled(1) [OF assms(1)] a(2)] .
  moreover have "e \<le> expo x" using binade_order [OF a(1) expo_scaled(2) [OF assms(1)]] .
  ultimately show ?thesis by simp
qed

lemma expo_mono:
  fixes x :: rat
  assumes "0 < x" "x \<le> y"
  shows "expo x \<le> expo y"
proof -
  have y: "0 < y" using assms by linarith
  have "2 ^ 52 * 2 powi expo x \<le> y" using expo_scaled(1) [OF assms(1)] assms(2) by linarith
  then show ?thesis using binade_order expo_scaled(2) [OF y] by blast
qed

lemma fl_pos: "0 < x \<Longrightarrow> fl x = of_int (rhe (x / 2 powi expo x)) * 2 powi expo x"
  by (simp add: fl_def)

lemma fl_eval:
  assumes "0 < x" "2 ^ 52 \<le> x / 2 powi e" "x / 2 powi e < 2 ^ 53"
  shows "fl x = of_int (rhe (x / 2 powi e)) * 2 powi e"
  using fl_pos [OF assms(1)] expo_unique [OF assms] by simp

lemma mant_bounds:
  fixes x :: rat
  assumes "0 < x"
  shows "2 ^ 52 \<le> rhe (x / 2 powi expo x)" "rhe (x / 2 powi expo x) \<le> 2 ^ 53"
proof -
  have "rhe (of_int (2 ^ 52)) \<le> rhe (x / 2 powi expo x)"
    using expo_bounds(1) [OF assms] by (intro rhe_mono) simp
  then show "2 ^ 52 \<le> rhe (x / 2 powi expo x)" by (simp only: rhe_of_int)
  have "rhe (x / 2 powi expo x) \<le> rhe (of_int (2 ^ 53))"
    using expo_bounds(2) [OF assms] by (intro rhe_mono) simp
  then show "rhe (x / 2 powi expo x) \<le> 2 ^ 53" by (simp only: rhe_of_int)
qed

lemma fl_mono_pos:
  assumes "0 < x" "x \<le> y"
  shows "fl x \<le> fl y"
proof -
  have y: "0 < y" using assms by linarith
  have le: "expo x \<le> expo y" using expo_mono [OF assms] .
  show ?thesis
  proof (cases "expo x = expo y")
    case True
    have "x / 2 powi expo y \<le> y / 2 powi expo y"
      using assms(2) by (simp add: divide_right_mono)
    then have "rhe (x / 2 powi expo y) \<le> rhe (y / 2 powi expo y)" by (rule rhe_mono)
    then have "(of_int (rhe (x / 2 powi expo y)) :: rat) \<le> of_int (rhe (y / 2 powi expo y))"
      by (simp only: of_int_le_iff)
    then show ?thesis unfolding fl_pos [OF assms(1)] fl_pos [OF y] True
      by (simp add: mult_right_mono)
  next
    case False
    with le have "expo x + 1 \<le> expo y" by simp
    then have p: "(2::rat) powi (expo x + 1) \<le> 2 powi expo y"
      by (intro power_int_increasing) simp_all
    have p2: "(2::rat) powi (expo x + 1) = 2 * 2 powi expo x"
      using power_int_add [of "2::rat" 1 "expo x"] by (simp add: add.commute)
    have "(of_int (rhe (x / 2 powi expo x)) :: rat) \<le> of_int (2 ^ 53)"
      using mant_bounds(2) [OF assms(1)] by (simp only: of_int_le_iff)
    then have "fl x \<le> 2 ^ 53 * 2 powi expo x"
      unfolding fl_pos [OF assms(1)] by (simp add: mult_right_mono)
    also have "\<dots> \<le> 2 ^ 52 * 2 powi expo y" using p p2 by simp
    also have "\<dots> \<le> fl y"
    proof -
      have "(of_int (2 ^ 52) :: rat) \<le> of_int (rhe (y / 2 powi expo y))"
        using mant_bounds(1) [OF y] by (simp only: of_int_le_iff)
      then show ?thesis unfolding fl_pos [OF y] by (simp add: mult_right_mono)
    qed
    finally show ?thesis .
  qed
qed

lemma fl_nonneg: "0 \<le> x \<Longrightarrow> 0 \<le> fl x"
proof (cases "x = 0")
  case True
  then show ?thesis by (simp add: fl_def)
next
  case False
  assume "0 \<le> x"
  with False have x: "0 < x" by simp
  have "(0::int) \<le> 2 ^ 52" by simp
  then have "0 \<le> rhe (x / 2 powi expo x)" using mant_bounds(1) [OF x] by (rule order_trans)
  then show ?thesis unfolding fl_pos [OF x] by simp
qed

lemma fl_mono: 
  assumes "0 \<le> x" "x \<le> y"
  shows "fl x \<le> fl y"
proof (cases "x = 0")
  case True
  then show ?thesis using fl_nonneg [of y] assms by (simp add: fl_def)
next
  case False
  with assms have "0 < x" by simp
  then show ?thesis using assms(2) by (rule fl_mono_pos)
qed

lemma fl_one: "fl 1 = 1"
proof -
  have "fl 1 = of_int (rhe (1 / 2 powi (- 52))) * 2 powi (- 52)"
    by (rule fl_eval) (simp_all add: power_int_minus_divide)
  also have "(1::rat) / 2 powi (- 52) = of_int (2 ^ 52)" by (simp add: power_int_minus_divide)
  finally show ?thesis by (simp only: rhe_of_int) (simp add: power_int_minus_divide)
qed

lemma fl_unit: "0 \<le> x \<Longrightarrow> x \<le> 1 \<Longrightarrow> 0 \<le> fl x \<and> fl x \<le> 1"
  using fl_nonneg [of x] fl_mono [of x 1] by (simp add: fl_one)

text \<open>
  Two values to compare with Python: \<open>(0.1).as_integer_ratio()\<close> and
  \<open>(1 / 3).as_integer_ratio()\<close>.
\<close>

lemma fl_one_tenth: "fl (1 / 10) = 3602879701896397 / 36028797018963968"
  by code_simp

lemma fl_one_third: "fl (1 / 3) = 6004799503160661 / 18014398509481984"
  by code_simp

text \<open>
  Values of the double format to compare with Python: \<open>0.1\<close>, the product of the
  doubles nearest to 1/3 and 1/7, and a negative value that rounds to the negative
  zero.
\<close>

lemma fl64_one_tenth: "fl64 (1 / 10) = Fin (3602879701896397 / 36028797018963968)"
  by code_simp

lemma xmul_third_seventh:
  "xmul (Fin (fl (1 / 3))) (Fin (fl (1 / 7))) = Fin (857828500451523 / 18014398509481984)"
  by code_simp

lemma xround3_negative_zero: "xround3 (Fin (- 4 / 10000)) = NegZero"
  by code_simp

section \<open>Properties of the string operations\<close>

lemma str_contains_iff: "str_contains x s \<longleftrightarrow> (\<exists>p q. s = p @ x @ q)"
proof (induction s)
  case Nil
  then show ?case by auto
next
  case (Cons c s)
  show ?case
  proof
    assume "str_contains x (c # s)"
    then consider "take (length x) (c # s) = x" | "str_contains x s" by auto
    then show "\<exists>p q. c # s = p @ x @ q"
    proof cases
      case 1
      have "c # s = [] @ take (length x) (c # s) @ drop (length x) (c # s)" by simp
      with 1 show ?thesis by metis
    next
      case 2
      with Cons.IH obtain p q where "s = p @ x @ q" by blast
      then have "c # s = (c # p) @ x @ q" by simp
      then show ?thesis by blast
    qed
  next
    assume "\<exists>p q. c # s = p @ x @ q"
    then obtain p q where pq: "c # s = p @ x @ q" by blast
    show "str_contains x (c # s)"
    proof (cases p)
      case Nil
      with pq have "take (length x) (c # s) = x" by simp
      then show ?thesis by simp
    next
      case (Cons d p')
      with pq have "s = p' @ x @ q" by simp
      with Cons.IH have "str_contains x s" by blast
      then show ?thesis by simp
    qed
  qed
qed

lemma list_ex_contains_iff:
  "list_ex (\<lambda>x. str_contains x s) ks \<longleftrightarrow> (\<exists>k \<in> set ks. \<exists>p q. s = p @ k @ q)"
  by (simp add: list_ex_iff str_contains_iff)

text \<open>
  Values to compare with Python: \<open>str.lower()\<close> on Polish capitals, on a Greek
  word whose last letter is a capital sigma, after an apostrophe and at the start of a
  word, and on the dotted capital I; and the groundedness of an upper-case response
  against its lower-case context.
\<close>

lemma lower_lodz: "lower [321, 211, 68, 377] = [322, 243, 100, 378]"
  by code_simp

lemma lower_odos: "lower [927, 916, 927, 931, 46] = [959, 948, 959, 962, 46]"
  by code_simp

lemma lower_sigma_contexts:
  "lower [931] = [963]" "lower [97, 39, 931] = [97, 39, 962]"
  "lower [931, 913, 931] = [963, 945, 962]" "lower [65, 931, 98] = [97, 963, 98]"
  by code_simp+

lemma lower_dotted_I: "lower [304, 115] = [105, 775, 115]"
  by code_simp

lemma grounded_lodz: "is_grounded_in_context [321, 211, 68, 377] [[322, 243, 100, 378]]"
  by code_simp

section \<open>Properties of groundedness and metrics\<close>

lemma fl_threshold: "fl (15 / 100) = 5404319552844595 / 36028797018963968"
  by code_simp

lemma fl_above_threshold:
  "fl (5404319552844596 / 36028797018963968) = 5404319552844596 / 36028797018963968"
  by code_simp

lemma ratio_test:
  fixes k n :: nat
  assumes n: "1 \<le> n" "n \<le> 2 ^ 51"
  shows "fl (15 / 100) < fl (of_nat k / of_nat n) \<longleftrightarrow> (15 / 100 :: rat) < of_nat k / of_nat n"
proof
  assume a: "fl (15 / 100) < fl (of_nat k / of_nat n)"
  show "(15 / 100 :: rat) < of_nat k / of_nat n"
  proof (rule ccontr)
    assume "\<not> (15 / 100 :: rat) < of_nat k / of_nat n"
    then have "(of_nat k / of_nat n :: rat) \<le> 15 / 100" by simp
    moreover have "(0::rat) \<le> of_nat k / of_nat n" by simp
    ultimately have "fl (of_nat k / of_nat n) \<le> fl (15 / 100)" by (rule fl_mono [rotated])
    with a show False by simp
  qed
next
  assume a: "(15 / 100 :: rat) < of_nat k / of_nat n"
  have npos: "(0::rat) < of_nat n" using n by simp
  from a npos have "(15::rat) * of_nat n < 100 * of_nat k" by (simp add: pos_less_divide_eq)
  then have "(of_nat (15 * n) :: rat) < of_nat (100 * k)" by simp
  then have "15 * n < 100 * k" by (simp only: of_nat_less_iff)
  then have "3 * n < 20 * k" by simp
  then have "3 * n + 1 \<le> 20 * k" by simp
  then have "(of_nat (3 * n + 1) :: rat) \<le> of_nat (20 * k)" by (simp only: of_nat_le_iff)
  then have k: "(3 * of_nat n + 1 :: rat) \<le> 20 * of_nat k" by simp
  have "(of_nat n :: rat) \<le> of_nat (2 ^ 51)" using n by (simp only: of_nat_le_iff)
  then have nb: "(of_nat n :: rat) \<le> 2251799813685248" by simp
  have "(5404319552844596 / 36028797018963968 :: rat) * of_nat n \<le> of_nat k"
    using k nb by linarith
  then have "(5404319552844596 / 36028797018963968 :: rat) \<le> of_nat k / of_nat n"
    using npos by (simp add: pos_le_divide_eq)
  then have "fl (5404319552844596 / 36028797018963968) \<le> fl (of_nat k / of_nat n)"
    by (intro fl_mono) simp_all
  then show "fl (15 / 100) < fl (of_nat k / of_nat n)"
    unfolding fl_threshold fl_above_threshold by linarith
qed

lemma sum_indicator: "(\<Sum>r\<leftarrow>xs. if P r then 1 else 0) = int (length (filter P xs))"
  by (induction xs) simp_all

lemma sum_ones: "(\<Sum>r\<leftarrow>xs. 1) = int (length xs)"
  by (induction xs) simp_all

lemma length_filter_not: "length (filter (\<lambda>r. \<not> P r) xs) = length xs - length (filter P xs)"
  using sum_length_filter_compl [of P xs] by simp

lemma round3_unit:
  assumes "0 \<le> x" "x \<le> 1"
  shows "0 \<le> round3 x \<and> round3 x \<le> 1"
proof -
  have "rhe (of_int 0) \<le> rhe (x * 1000)" using assms(1) by (intro rhe_mono) simp
  then have lo: "0 \<le> rhe (x * 1000)" by (simp only: rhe_of_int)
  have "rhe (x * 1000) \<le> rhe (of_int 1000)" using assms(2) by (intro rhe_mono) simp
  then have hi: "rhe (x * 1000) \<le> 1000" by (simp only: rhe_of_int)
  have "(0::rat) \<le> of_int (rhe (x * 1000)) / 1000" using lo by simp
  moreover have "(of_int (rhe (x * 1000)) :: rat) / 1000 \<le> 1" using hi by simp
  ultimately show ?thesis unfolding round3_def by (rule fl_unit)
qed

lemma ratio_unit:
  fixes k n :: nat
  assumes "k \<le> n" "0 < n"
  shows "0 \<le> round3 (fl (of_nat k / of_nat n)) \<and> round3 (fl (of_nat k / of_nat n)) \<le> 1"
proof -
  have "(0::rat) \<le> of_nat k / of_nat n" by simp
  moreover have "(of_nat k :: rat) / of_nat n \<le> 1" using assms by simp
  ultimately have "0 \<le> fl (of_nat k / of_nat n) \<and> fl (of_nat k / of_nat n) \<le> 1"
    by (rule fl_unit)
  then show ?thesis using round3_unit by blast
qed

lemma compute_metrics_nonempty:
  assumes "results \<noteq> []"
  shows "compute_metrics results =
         Inr \<lparr>accuracy = round3 (fl (of_nat (correct_count results) / of_nat (length results))),
              groundedness =
                round3 (fl (of_nat (grounded_count results) / of_nat (length results))),
              hallucination_rate =
                round3 (fl (of_nat (length results - grounded_count results)
                            / of_nat (length results)))\<rparr>"
proof -
  have n: "int (length results) \<noteq> 0" using assms by simp
  show ?thesis
    unfolding compute_metrics_def Let_def truediv_def sum_indicator sum_ones length_filter_not
      correct_count_def grounded_count_def
    using n by simp
qed

lemma compute_metrics_empty:
  "compute_metrics [] = Inl (Exn ZeroDivisionError (cp ''division by zero''))"
  by (simp add: compute_metrics_def truediv_def)

lemma batch80_counts:
  "length batch80 = 80" "correct_count batch80 = 1" "grounded_count batch80 = 1"
proof -
  show "length batch80 = 80" by (simp add: batch80_def)
  have g: "is_grounded_in_context (response hit) [expected_answer hit]"
    "\<not> is_grounded_in_context (response miss) [expected_answer miss]"
    by code_simp+
  have c: "is_correct hit" "\<not> is_correct miss" by (simp_all add: hit_def miss_def)
  show "correct_count batch80 = 1" by (simp add: correct_count_def batch80_def c)
  show "grounded_count batch80 = 1" by (simp add: grounded_count_def batch80_def g)
qed

lemma round3_one_80th: "round3 (fl (1 / 80)) = fl (13 / 1000)"
  by code_simp
lemma round3_79_80ths: "round3 (fl (79 / 80)) = fl (988 / 1000)"
  by code_simp
lemma fadd_013_988: "fadd (fl (13 / 1000)) (fl (988 / 1000)) = fl (1001 / 1000)"
  by code_simp
lemma fl_1001_not_one: "fl (1001 / 1000) \<noteq> 1"
  by code_simp

lemma hit_counts: "correct_count [hit] = 1" "grounded_count [hit] = 1"
proof -
  show "correct_count [hit] = 1" by (simp add: correct_count_def hit_def)
  have "is_grounded_in_context (response hit) [expected_answer hit]" by code_simp
  then show "grounded_count [hit] = 1" by (simp add: grounded_count_def)
qed

lemma round3_one: "round3 (fl 1) = 1"
  by code_simp

lemma round3_zero: "round3 (fl 0) = 0"
  by code_simp

section \<open>Properties of the evaluator\<close>

lemma fl_075: "fl (3 / 4) = 3 / 4"
  by code_simp

lemma fl_080_pos: "0 < fl (4 / 5)"
  by code_simp

lemma round3_of_one: "round3 1 = 1"
  using round3_one by (simp add: fl_one)

lemma fmt2_zero: "fmt2 0 = cp ''0.00''"
  by code_simp

lemma evaluate_literal_ok:
  assumes "text_similarity env r e = Inr s" "fl (75 / 100) \<le> s"
  shows "evaluate env q r e =
         (\<lparr>question = q, response = r, expected_answer = e, is_correct = True,
           reasoning = cp ''Similarity: '' @ fmt2 s @ cp ''. '' @ VERDICT_OK\<rparr>, [])"
  using assms by (simp add: evaluate_def evaluate_try_def Let_def)

lemma evaluate_literal_low:
  assumes "text_similarity env r e = Inr s" "\<not> fl (75 / 100) \<le> s"
  shows "evaluate env q r e =
         (\<lparr>question = q, response = r, expected_answer = e,
           is_correct = xge (fst (semantic_similarity env r e)) (fl (80 / 100)),
           reasoning =
             cp ''Similarity: '' @ fmt2 s @ cp ''. '' @ cp ''Semantic Similarity: ''
             @ xfmt2 (fst (semantic_similarity env r e)) @ cp ''. ''
             @ (if xge (fst (semantic_similarity env r e)) (fl (80 / 100))
                then VERDICT_OK else VERDICT_KO)\<rparr>,
          snd (semantic_similarity env r e))"
  using assms by (simp add: evaluate_def evaluate_try_def Let_def split_beta)

lemma evaluate_literal_raises:
  assumes "text_similarity env r e = Inl x"
  shows "evaluate env q r e =
         (\<lparr>question = q, response = r, expected_answer = e, is_correct = False,
           reasoning = ERROR_PREFIX @ msg x\<rparr>, [])"
  using assms by (simp add: evaluate_def evaluate_try_def)

lemma semantic_score_reaches:
  "xge (fst (semantic_similarity env r e)) (fl (80 / 100)) \<longleftrightarrow>
   (\<exists>va vb c. embeddings_create env r e = Inr (va, vb) \<and> cosine env va vb = Inr c
              \<and> xge (xround3 c) (fl (80 / 100)))"
proof (cases "embeddings_create env r e")
  case (Inl x)
  then show ?thesis using fl_080_pos by (simp add: semantic_similarity_def cosine_body_def)
next
  case (Inr vs)
  obtain va vb where vs: "vs = (va, vb)" by (cases vs)
  show ?thesis
  proof (cases "cosine env va vb")
    case (Inl x)
    then show ?thesis
      using Inr vs fl_080_pos by (simp add: semantic_similarity_def cosine_body_def)
  next
    case c: (Inr c)
    then show ?thesis using Inr vs by (simp add: semantic_similarity_def cosine_body_def)
  qed
qed

lemma semantic_events:
  "snd (semantic_similarity env r e) = [Sleep (3 / 2), EmbeddingsCreate EMBEDDING_MODEL [r, e]]"
  by (simp add: semantic_similarity_def)

lemma world_ok_identical: "\<forall>x. sm_ratio world_ok x x = Inr 1"
  by (simp add: world_ok_def)

lemma world_ok_cosine: "cosine world_ok [Fin 1] [Fin 1] = Inr (Fin 1)"
  by code_simp

lemma one_reaches: "xge (xround3 (Fin 1)) (fl (80 / 100))"
  by code_simp

lemma zero_ratio_low: "\<not> fl (75 / 100) \<le> round3 0"
  by code_simp

lemma near_ratio_low: "fl (380 / 507) < fl (75 / 100)"
  by code_simp

lemma near_ratio_rounds_up: "round3 (fl (380 / 507)) = 3 / 4"
  by code_simp

lemma near_cosine: "cosine world_near_threshold [Fin 1, Fin 0] [Fin 0, Fin 1] = Inr (Fin 0)"
  by code_simp

lemma matcher_fails_text:
  "text_similarity world_matcher_fails (cp ''x'') (cp ''y'')
   = Inl (Exn OtherException (cp ''out of memory''))"
  by (simp add: text_similarity_def world_matcher_fails_def world_ok_def)

lemma embeddings_down_text:
  "text_similarity world_embeddings_down (cp ''x'') (cp ''y'') = Inr 0"
  by code_simp

lemma embeddings_down_cosine:
  "cosine_body world_embeddings_down (cp ''x'') (cp ''y'')
   = Inl (Exn OtherException (cp ''connection refused''))"
  by (simp add: cosine_body_def world_embeddings_down_def world_ok_def)

lemma zero_below_threshold: "\<not> fl (75 / 100) \<le> 0"
  by (simp add: fl_075)

section \<open>Properties of the retriever\<close>

lemma rerank_loop_limited_step:
  assumes "rate_limited env q d k a"
  shows "rerank_loop env q d k (a # rest) =
         (fst (rerank_loop env q d k rest),
          failed_attempt q d k a @ snd (rerank_loop env q d k rest))"
proof -
  from assms obtain x where "co_rerank env a q d k = Inl x" "kind x = TooManyRequestsError"
    by (auto simp add: rate_limited_def split: sum.splits)
  then show ?thesis by (simp add: failed_attempt_def split_beta)
qed

lemma rerank_loop_limited_prefix:
  assumes "\<forall>a \<in> set pre. rate_limited env q d k a"
  shows "rerank_loop env q d k (pre @ rest) =
         (fst (rerank_loop env q d k rest),
          concat (map (failed_attempt q d k) pre) @ snd (rerank_loop env q d k rest))"
  using assms
proof (induction pre)
  case Nil
  then show ?case by simp
next
  case (Cons a pre)
  from Cons.prems have lim: "rate_limited env q d k a" by simp
  from Cons have IH: "rerank_loop env q d k (pre @ rest) =
         (fst (rerank_loop env q d k rest),
          concat (map (failed_attempt q d k) pre) @ snd (rerank_loop env q d k rest))"
    by simp
  show ?case using rerank_loop_limited_step [OF lim, of "pre @ rest"] by (simp add: IH)
qed

lemma rerank_loop_all_limited:
  assumes "\<forall>a \<in> set as. rate_limited env q d k a"
  shows "rerank_loop env q d k as =
         (Inl TOO_MANY_ATTEMPTS, concat (map (failed_attempt q d k) as))"
  using rerank_loop_limited_prefix [OF assms, of "[]"] by simp

lemma upt_split: "j < n \<Longrightarrow> [0..<n] = [0..<j] @ j # [Suc j..<n]"
  by (metis upt_conv_Cons upt_add_eq_append le0 less_or_eq_imp_le le_add_diff_inverse)

lemma rerank_loop_success:
  assumes "j < 5" "\<forall>a<j. rate_limited env q d k a" "co_rerank env j q d k = Inr idx"
  shows "rerank_loop env q d k [0..<5] =
         (Inr idx, concat (map (failed_attempt q d k) [0..<j])
                   @ [Sleep 10, CohereRerank RERANK_MODEL q d k])"
proof -
  have pre: "\<forall>a \<in> set [0..<j]. rate_limited env q d k a" using assms(2) by simp
  show ?thesis
    unfolding upt_split [OF assms(1)] rerank_loop_limited_prefix [OF pre]
    using assms(3) by simp
qed

lemma rerank_loop_other_error:
  assumes "j < 5" "\<forall>a<j. rate_limited env q d k a" "co_rerank env j q d k = Inl x"
    "kind x \<noteq> TooManyRequestsError"
  shows "rerank_loop env q d k [0..<5] =
         (Inl x, concat (map (failed_attempt q d k) [0..<j])
                 @ [Sleep 10, CohereRerank RERANK_MODEL q d k])"
proof -
  have pre: "\<forall>a \<in> set [0..<j]. rate_limited env q d k a" using assms(2) by simp
  show ?thesis
    unfolding upt_split [OF assms(1)] rerank_loop_limited_prefix [OF pre]
    using assms(3,4) by simp
qed

lemma rerank_loop_exhausted:
  assumes "\<forall>a<5. rate_limited env q d k a"
  shows "rerank_loop env q d k [0..<5] =
         (Inl TOO_MANY_ATTEMPTS, concat (map (failed_attempt q d k) [0..<5]))"
  using assms by (intro rerank_loop_all_limited) simp

lemma rerank_calls_failed:
  "rerank_calls (concat (map (failed_attempt q d k) as) @ evs) = length as + rerank_calls evs"
  by (induction as) (simp_all add: rerank_calls_def failed_attempt_def)

lemma datastore_calls_failed:
  "filter is_datastore_call (concat (map (failed_attempt q d k) as) @ evs)
   = filter is_datastore_call evs"
  by (induction as) (simp_all add: failed_attempt_def)

lemma index_all_in_range:
  assumes "\<forall>i \<in> set idx. 0 \<le> i \<and> i < int (length xs)"
  shows "index_all xs idx = Inr (map (\<lambda>i. xs ! nat i) idx)"
  using assms by (induction idx) (simp_all add: py_index_def)

lemma search_ok:
  assumes "datastore_search env query (top_k * 3) = Inr docs"
  shows "search env query top_k =
         (fst (rerank env query docs top_k),
          DatastoreSearch query (top_k * 3) # snd (rerank env query docs top_k))"
  using assms by (simp add: search_def split_beta)

lemma rerank_exhausted:
  assumes "\<forall>a<5. rate_limited env q d k a"
  shows "rerank env q d k =
         (Inl TOO_MANY_ATTEMPTS, Sleep 6 # concat (map (failed_attempt q d k) [0..<5]))"
  by (simp only: rerank_def rerank_loop_exhausted [OF assms] prod.case sum.case)

lemma rerank_success:
  assumes "j < 5" "\<forall>a<j. rate_limited env q d k a" "co_rerank env j q d k = Inr idx"
  shows "rerank env q d k =
         (index_all d idx,
          Sleep 6 # concat (map (failed_attempt q d k) [0..<j])
          @ [Sleep 10, CohereRerank RERANK_MODEL q d k])"
  by (simp only: rerank_def rerank_loop_success [OF assms] prod.case sum.case)

lemma rerank_other_error:
  assumes "j < 5" "\<forall>a<j. rate_limited env q d k a" "co_rerank env j q d k = Inl x"
    "kind x \<noteq> TooManyRequestsError"
  shows "rerank env q d k =
         (Inl x,
          Sleep 6 # concat (map (failed_attempt q d k) [0..<j])
          @ [Sleep 10, CohereRerank RERANK_MODEL q d k])"
  by (simp only: rerank_def rerank_loop_other_error [OF assms] prod.case sum.case)

lemma rerank_calls_trace:
  "rerank_calls (x # Sleep 6 # concat (map (failed_attempt q d k) as) @ evs)
   = (if is_rerank_call x then 1 else 0) + length as + rerank_calls evs"
  using rerank_calls_failed [of q d k as evs] by (simp add: rerank_calls_def)

lemma limited_always: "rate_limited world_limited_always q d k a"
  by (simp add: rate_limited_def world_limited_always_def world_ok_def)

lemma limited_once: "rate_limited world_limited_once q d k 0"
  by (simp add: rate_limited_def world_limited_once_def world_ok_def)

lemma broken_first: "rate_limited world_rerank_broken q d k 0"
  by (simp add: rate_limited_def world_rerank_broken_def world_ok_def)

lemma sample_datastore:
  "datastore_search world_limited_always q k = Inr [cp ''uno'', cp ''dos'', cp ''tres'']"
  "datastore_search world_limited_once q k = Inr [cp ''uno'', cp ''dos'', cp ''tres'']"
  "datastore_search world_rerank_broken q k = Inr [cp ''uno'', cp ''dos'', cp ''tres'']"
  "datastore_search world_ok q k = Inr [cp ''uno'', cp ''dos'', cp ''tres'']"
  by (simp_all add: world_limited_always_def world_limited_once_def world_rerank_broken_def
      world_ok_def)

section \<open>Properties of the pipeline\<close>

lemma guardrails_forms:
  "ethical_guardrails r = INVESTMENT_REFUSAL \<or> ethical_guardrails r = PREDICTION_REFUSAL
   \<or> ethical_guardrails r = r @ SOURCE_SUFFIX"
  by (simp add: ethical_guardrails_def Let_def)

lemma guardrails_prediction_refusal:
  "ethical_guardrails PREDICTION_REFUSAL = PREDICTION_REFUSAL @ SOURCE_SUFFIX"
  by code_simp

lemma source_suffix_nonempty: "SOURCE_SUFFIX \<noteq> []"
  by (simp add: SOURCE_SUFFIX_def)

lemma guardrails_fixed_point:
  assumes "ethical_guardrails r = r"
  shows "r = INVESTMENT_REFUSAL"
proof -
  from guardrails_forms [of r] consider
    "ethical_guardrails r = INVESTMENT_REFUSAL" | "ethical_guardrails r = PREDICTION_REFUSAL"
    | "ethical_guardrails r = r @ SOURCE_SUFFIX" by blast
  then show ?thesis
  proof cases
    case 1
    with assms show ?thesis by simp
  next
    case 2
    with assms have "r = PREDICTION_REFUSAL" by simp
    with assms guardrails_prediction_refusal source_suffix_nonempty show ?thesis by simp
  next
    case 3
    with assms source_suffix_nonempty show ?thesis by simp
  qed
qed

lemma world_ok_search:
  "fst (search world_ok (cp ''q'') 10) = Inr [cp ''tres'', cp ''uno'']"
  by code_simp

lemma world_ok_generate:
  "fst (generate_response world_ok (cp ''q'') [cp ''tres'', cp ''uno''])
   = Inr (cp ''El EBITDA fue 10'')"
  by (simp add: generate_response_def world_ok_def Let_def)

lemma guardrails_sample:
  "ethical_guardrails (cp ''El EBITDA fue 10'') = cp ''El EBITDA fue 10'' @ SOURCE_SUFFIX"
  by code_simp

section \<open>Claims\<close>

text \<open>
  C3. \<open>ethical_guardrails\<close> is a three-case function of the lower-cased response: when
  an investment keyword occurs in it the result is the fixed investment refusal, whatever
  else the response holds; otherwise, when a prediction keyword occurs in it, the result
  is the fixed prediction refusal; otherwise the result is the response itself followed
  by the fixed source suffix. The investment check comes first.
\<close>

theorem ethical_guardrails_three_cases:
  "ethical_guardrails r =
     (if \<exists>k \<in> set investment_terms. \<exists>p q. lower r = p @ k @ q then INVESTMENT_REFUSAL
      else if \<exists>k \<in> set prediction_terms. \<exists>p q. lower r = p @ k @ q then PREDICTION_REFUSAL
      else r @ SOURCE_SUFFIX)"
  unfolding ethical_guardrails_def Let_def list_ex_contains_iff by (rule refl)

theorem ethical_guardrails_three_cases_witness:
  "ethical_guardrails (cp ''Conviene Comprar acciones'') = INVESTMENT_REFUSAL"
proof -
  have "list_ex (\<lambda>x. str_contains x (lower (cp ''Conviene Comprar acciones'')))
          investment_terms"
    by code_simp
  then have ex:
    "\<exists>k \<in> set investment_terms. \<exists>p q. lower (cp ''Conviene Comprar acciones'') = p @ k @ q"
    by (simp only: list_ex_contains_iff)
  show ?thesis
    using ex ethical_guardrails_three_cases [of "cp ''Conviene Comprar acciones''"] by simp
qed

text \<open>
  C1, as the code has it. \<open>is_grounded_in_context\<close> lower-cases the response and the
  joined context, splits both on whitespace, and answers whether the number of distinct
  response tokens that also occur among the context tokens, divided by the number of
  response tokens counted with their repetitions (at least 1), is strictly greater than
  0.15. The denominator comes from the response, not from the context. The quotient and
  the comparison are made on doubles; they agree with the exact ones as long as the
  response has at most \<open>2 ^ 51\<close> tokens.
\<close>

theorem is_grounded_ratio:
  assumes "length (split (lower r)) \<le> 2 ^ 51"
  shows "is_grounded_in_context r ctx \<longleftrightarrow>
         (15 / 100 :: rat)
         < of_nat (card (set (split (lower r)) \<inter> set (split (lower (join (cp '' '') ctx)))))
           / of_nat (max 1 (length (split (lower r))))"
proof -
  have "1 \<le> max 1 (length (split (lower r)))" by simp
  moreover have "max 1 (length (split (lower r))) \<le> 2 ^ 51" using assms by simp
  ultimately show ?thesis
    unfolding is_grounded_in_context_def Let_def by (rule ratio_test)
qed

theorem is_grounded_ratio_witness:
  "length (split (lower (cp ''El EBITDA fue 10''))) \<le> 2 ^ 51
   \<and> is_grounded_in_context (cp ''El EBITDA fue 10'') [cp ''ebitda'', cp ''10 millones'']"
proof -
  have n: "length (split (lower (cp ''El EBITDA fue 10''))) = 4" by code_simp
  have h: "length (split (lower (cp ''El EBITDA fue 10''))) \<le> 2 ^ 51" unfolding n by simp
  have c: "card (set (split (lower (cp ''El EBITDA fue 10'')))
                 \<inter> set (split (lower (join (cp '' '') [cp ''ebitda'', cp ''10 millones''])))) = 2"
    by code_simp
  have "is_grounded_in_context (cp ''El EBITDA fue 10'') [cp ''ebitda'', cp ''10 millones'']"
    unfolding is_grounded_ratio [OF h] n c by simp
  with h show ?thesis by (rule conjI)
qed

text \<open>
  C1 as stated takes the number of distinct response tokens as the denominator. The
  response \<open>a a a a a a a\<close> against the context \<open>a\<close> has one distinct token, which
  occurs in the context, so the stated ratio is 1; the code divides by 7 and answers
  that the response is not grounded.
\<close>

theorem is_grounded_distinct_counterexample:
  "\<not> (is_grounded_in_context (cp ''a a a a a a a'') [cp ''a''] \<longleftrightarrow>
       (15 / 100 :: rat)
       < of_nat (card (set (split (lower (cp ''a a a a a a a'')))
                       \<inter> set (split (lower (join (cp '' '') [cp ''a''])))))
         / of_nat (max 1 (card (set (split (lower (cp ''a a a a a a a'')))))))"
  by code_simp

text \<open>
  C2, as the code has it. For a batch of \<open>N > 0\<close> results with \<open>C\<close> marked
  correct and \<open>G\<close> grounded in their own expected answer, \<open>compute_metrics\<close>
  returns \<open>accuracy = C / N\<close>, \<open>groundedness = G / N\<close> and
  \<open>hallucination_rate = (N - G) / N\<close>, each a float quotient rounded to three
  decimals on its own; \<open>G \<le> N\<close>, so the counts of grounded and of hallucinated
  results add up to \<open>N\<close>.
\<close>

theorem compute_metrics_values:
  assumes "results \<noteq> []"
  shows "compute_metrics results =
         Inr \<lparr>accuracy = round3 (fl (of_nat (correct_count results) / of_nat (length results))),
              groundedness =
                round3 (fl (of_nat (grounded_count results) / of_nat (length results))),
              hallucination_rate =
                round3 (fl (of_nat (length results - grounded_count results)
                            / of_nat (length results)))\<rparr>
         \<and> grounded_count results \<le> length results"
  using compute_metrics_nonempty [OF assms] by (simp add: grounded_count_def)

theorem compute_metrics_values_witness:
  "[hit] \<noteq> []
   \<and> compute_metrics [hit] = Inr \<lparr>accuracy = 1, groundedness = 1, hallucination_rate = 0\<rparr>"
proof -
  have ne: "[hit] \<noteq> []" by simp
  show ?thesis
    using compute_metrics_values [OF ne] round3_one round3_zero by (simp add: hit_counts)
qed

text \<open>
  C2 as stated also says that the returned groundedness and hallucination rate add up
  to exactly 1.0. With \<open>N = 80\<close> and \<open>G = 1\<close> the two quotients are the doubles
  nearest to 0.0125 and 0.9875, both slightly above the tie, so they round to 0.013 and
  0.988, whose float sum is 1.001.
\<close>

theorem compute_metrics_sum_counterexample:
  "compute_metrics batch80 =
     Inr \<lparr>accuracy = fl (13 / 1000), groundedness = fl (13 / 1000),
          hallucination_rate = fl (988 / 1000)\<rparr>
   \<and> fadd (fl (13 / 1000)) (fl (988 / 1000)) = fl (1001 / 1000)
   \<and> fl (1001 / 1000) \<noteq> 1"
proof -
  have ne: "batch80 \<noteq> []" by (simp add: batch80_def)
  show ?thesis
    unfolding compute_metrics_nonempty [OF ne] batch80_counts
    using round3_one_80th round3_79_80ths fadd_013_988 fl_1001_not_one by simp
qed

text \<open>
  C9. On a non-empty batch \<open>compute_metrics\<close> returns three values that lie between
  0 and 1; on the empty batch it raises \<open>ZeroDivisionError\<close>.
\<close>

theorem compute_metrics_range:
  "(results \<noteq> [] \<longrightarrow>
      (\<exists>m. compute_metrics results = Inr m
           \<and> 0 \<le> accuracy m \<and> accuracy m \<le> 1
           \<and> 0 \<le> groundedness m \<and> groundedness m \<le> 1
           \<and> 0 \<le> hallucination_rate m \<and> hallucination_rate m \<le> 1))
   \<and> compute_metrics [] = Inl (Exn ZeroDivisionError (cp ''division by zero''))"
proof (intro conjI impI)
  assume ne: "results \<noteq> []"
  then have n: "0 < length results" by simp
  have c: "correct_count results \<le> length results" by (simp add: correct_count_def)
  have g: "grounded_count results \<le> length results" by (simp add: grounded_count_def)
  have h: "length results - grounded_count results \<le> length results" by simp
  show "\<exists>m. compute_metrics results = Inr m
           \<and> 0 \<le> accuracy m \<and> accuracy m \<le> 1
           \<and> 0 \<le> groundedness m \<and> groundedness m \<le> 1
           \<and> 0 \<le> hallucination_rate m \<and> hallucination_rate m \<le> 1"
    unfolding compute_metrics_nonempty [OF ne]
    using ratio_unit [OF c n] ratio_unit [OF g n] ratio_unit [OF h n] by simp
next
  show "compute_metrics [] = Inl (Exn ZeroDivisionError (cp ''division by zero''))"
    by (rule compute_metrics_empty)
qed

theorem compute_metrics_range_witness:
  "[hit] \<noteq> []
   \<and> (\<exists>m. compute_metrics [hit] = Inr m
           \<and> 0 \<le> accuracy m \<and> accuracy m \<le> 1
           \<and> 0 \<le> groundedness m \<and> groundedness m \<le> 1
           \<and> 0 \<le> hallucination_rate m \<and> hallucination_rate m \<le> 1)"
  using compute_metrics_range [of "[hit]"] by simp

text \<open>
  C4, as the code has it. Let \<open>ratio\<close> be what the sequence matcher returns on the
  two lower-cased strings. \<open>evaluate\<close> marks the response correct iff \<open>ratio\<close>
  rounded to three decimals is at least 0.75 or, that failing, the embedding service
  returns two vectors whose cosine, rounded to three decimals, is at least 0.80 (a
  failed request or division counts as 0.0, a cosine that is not a number as below).
  When the rounded ratio is at least 0.75 nothing is sent to the embedding service and
  no sleep is made; otherwise the trace is the 1.5-second sleep and the one request.
  When the response equals the expected answer up to case, the sequence matcher (which
  returns 1.0 on identical sequences) is given two equal strings, the literal
  similarity is 1.0, the response is correct and no semantic call is made.
\<close>

theorem evaluate_classification:
  assumes "sm_ratio env (lower r) (lower e) = Inr ratio"
  shows "(is_correct (fst (evaluate env q r e)) \<longleftrightarrow>
            fl (75 / 100) \<le> round3 ratio
            \<or> (\<exists>va vb c. embeddings_create env r e = Inr (va, vb) \<and> cosine env va vb = Inr c
                   \<and> xge (xround3 c) (fl (80 / 100))))
         \<and> (fl (75 / 100) \<le> round3 ratio \<longrightarrow> snd (evaluate env q r e) = [])
         \<and> (\<not> fl (75 / 100) \<le> round3 ratio \<longrightarrow>
              snd (evaluate env q r e)
              = [Sleep (3 / 2), EmbeddingsCreate EMBEDDING_MODEL [r, e]])
         \<and> ((\<forall>x. sm_ratio env x x = Inr 1) \<and> lower r = lower e \<longrightarrow>
              ratio = 1 \<and> round3 ratio = 1 \<and> is_correct (fst (evaluate env q r e))
              \<and> snd (evaluate env q r e) = [])"
proof -
  have t: "text_similarity env r e = Inr (round3 ratio)"
    using assms by (simp add: text_similarity_def)
  have verdict: "is_correct (fst (evaluate env q r e)) \<longleftrightarrow>
            fl (75 / 100) \<le> round3 ratio
            \<or> (\<exists>va vb c. embeddings_create env r e = Inr (va, vb) \<and> cosine env va vb = Inr c
                   \<and> xge (xround3 c) (fl (80 / 100)))"
  proof (cases "fl (75 / 100) \<le> round3 ratio")
    case True
    then show ?thesis by (simp add: evaluate_literal_ok [OF t True])
  next
    case False
    then show ?thesis
      using semantic_score_reaches [of env r e] by (simp add: evaluate_literal_low [OF t False])
  qed
  have quiet: "snd (evaluate env q r e) = []" if "fl (75 / 100) \<le> round3 ratio"
    using that by (simp add: evaluate_literal_ok [OF t])
  have asked: "snd (evaluate env q r e)
              = [Sleep (3 / 2), EmbeddingsCreate EMBEDDING_MODEL [r, e]]"
    if "\<not> fl (75 / 100) \<le> round3 ratio"
    using that by (simp add: evaluate_literal_low [OF t] semantic_events)
  have same: "ratio = 1 \<and> round3 ratio = 1 \<and> is_correct (fst (evaluate env q r e))
              \<and> snd (evaluate env q r e) = []"
    if a: "(\<forall>x. sm_ratio env x x = Inr 1) \<and> lower r = lower e"
  proof -
    from a have "sm_ratio env (lower r) (lower e) = Inr 1" by simp
    with assms have one: "ratio = 1" by simp
    then have ge: "fl (75 / 100) \<le> round3 ratio" by (simp add: round3_of_one fl_075)
    show ?thesis using one by (simp add: evaluate_literal_ok [OF t ge] round3_of_one)
  qed
  from verdict quiet asked same show ?thesis by blast
qed

theorem evaluate_classification_witness:
  "sm_ratio world_ok (lower (cp ''EBITDA 10'')) (lower (cp ''ebitda 10'')) = Inr 1
   \<and> (\<forall>x. sm_ratio world_ok x x = Inr 1)
   \<and> lower (cp ''EBITDA 10'') = lower (cp ''ebitda 10'')
   \<and> is_correct (fst (evaluate world_ok (cp ''q'') (cp ''EBITDA 10'') (cp ''ebitda 10'')))
   \<and> snd (evaluate world_ok (cp ''q'') (cp ''EBITDA 10'') (cp ''ebitda 10'')) = []
   \<and> sm_ratio world_ok (lower (cp ''x'')) (lower (cp ''y'')) = Inr 0
   \<and> embeddings_create world_ok (cp ''x'') (cp ''y'') = Inr ([Fin 1], [Fin 1])
   \<and> cosine world_ok [Fin 1] [Fin 1] = Inr (Fin 1)
   \<and> is_correct (fst (evaluate world_ok (cp ''q'') (cp ''x'') (cp ''y'')))
   \<and> snd (evaluate world_ok (cp ''q'') (cp ''x'') (cp ''y''))
       = [Sleep (3 / 2), EmbeddingsCreate EMBEDDING_MODEL [cp ''x'', cp ''y'']]"
proof -
  have l: "lower (cp ''EBITDA 10'') = lower (cp ''ebitda 10'')" by code_simp
  have t: "sm_ratio world_ok (lower (cp ''EBITDA 10'')) (lower (cp ''ebitda 10'')) = Inr 1"
    by (simp add: l world_ok_def)
  have d: "lower (cp ''x'') \<noteq> lower (cp ''y'')" by code_simp
  have u: "sm_ratio world_ok (lower (cp ''x'')) (lower (cp ''y'')) = Inr 0"
    using d by (simp add: world_ok_def)
  have v: "embeddings_create world_ok (cp ''x'') (cp ''y'') = Inr ([Fin 1], [Fin 1])"
    by (simp add: world_ok_def)
  have first: "is_correct (fst (evaluate world_ok (cp ''q'') (cp ''EBITDA 10'') (cp ''ebitda 10'')))
     \<and> snd (evaluate world_ok (cp ''q'') (cp ''EBITDA 10'') (cp ''ebitda 10'')) = []"
    using evaluate_classification [OF t, of "cp ''q''"] world_ok_identical l
    by (simp add: round3_of_one fl_075)
  have second: "is_correct (fst (evaluate world_ok (cp ''q'') (cp ''x'') (cp ''y'')))
     \<and> snd (evaluate world_ok (cp ''q'') (cp ''x'') (cp ''y''))
         = [Sleep (3 / 2), EmbeddingsCreate EMBEDDING_MODEL [cp ''x'', cp ''y'']]"
    using evaluate_classification [OF u, of "cp ''q''"] v world_ok_cosine one_reaches
      zero_ratio_low
    by auto
  from t world_ok_identical l first u v world_ok_cosine second show ?thesis by blast
qed

text \<open>
  C4 as stated compares the ratio itself with 0.75. The code compares the ratio rounded
  to three decimals: the sequence matcher gives 380/507 (about 0.7495) for 190 times
  \<open>x\<close> followed by 118 times \<open>y\<close> against 190 times \<open>x\<close> followed by 9 times
  \<open>z\<close>, which is below 0.75 and rounds to 0.75. The two embedding vectors are
  orthogonal, so the cosine is 0. The response is marked correct, and no semantic
  call is made.
\<close>

theorem evaluate_rounding_counterexample:
  "sm_ratio world_near_threshold (lower near_response) (lower near_expected)
     = Inr (fl (380 / 507))
   \<and> fl (380 / 507) < fl (75 / 100)
   \<and> embeddings_create world_near_threshold near_response near_expected
     = Inr ([Fin 1, Fin 0], [Fin 0, Fin 1])
   \<and> cosine world_near_threshold [Fin 1, Fin 0] [Fin 0, Fin 1] = Inr (Fin 0)
   \<and> is_correct (fst (evaluate world_near_threshold (cp ''q'') near_response near_expected))
   \<and> snd (evaluate world_near_threshold (cp ''q'') near_response near_expected) = []"
proof -
  have s: "sm_ratio world_near_threshold (lower near_response) (lower near_expected)
     = Inr (fl (380 / 507))"
    by (simp add: world_near_threshold_def world_ok_def)
  have v: "embeddings_create world_near_threshold near_response near_expected
     = Inr ([Fin 1, Fin 0], [Fin 0, Fin 1])"
    by (simp add: world_near_threshold_def world_ok_def)
  have t: "text_similarity world_near_threshold near_response near_expected = Inr (3 / 4)"
    using s by (simp add: text_similarity_def near_ratio_rounds_up)
  have ge: "fl (75 / 100) \<le> 3 / 4" by (simp add: fl_075)
  have "is_correct (fst (evaluate world_near_threshold (cp ''q'') near_response near_expected))
   \<and> snd (evaluate world_near_threshold (cp ''q'') near_response near_expected) = []"
    by (simp add: evaluate_literal_ok [OF t ge])
  with s near_ratio_low v near_cosine show ?thesis by blast
qed

text \<open>
  C5, as the code has it. \<open>evaluate\<close> always returns a result, with a definite
  verdict. An exception of the literal comparison is caught by \<open>evaluate\<close>: the
  result is incorrect and its reasoning is the error prefix followed by the message.
  An exception of the semantic comparison is caught inside
  \<open>_semantic_similarity\<close> and becomes the score 0.0: the result is incorrect and its
  reasoning reports the two similarities and the negative verdict.
\<close>

theorem evaluate_catches:
  "(\<exists>b w. fst (evaluate env q r e) =
            \<lparr>question = q, response = r, expected_answer = e, is_correct = b, reasoning = w\<rparr>)
   \<and> (text_similarity env r e = Inl x \<longrightarrow>
        evaluate env q r e =
          (\<lparr>question = q, response = r, expected_answer = e, is_correct = False,
            reasoning = ERROR_PREFIX @ msg x\<rparr>, []))
   \<and> (text_similarity env r e = Inr s \<and> \<not> fl (75 / 100) \<le> s \<and> cosine_body env r e = Inl x \<longrightarrow>
        fst (evaluate env q r e) =
          \<lparr>question = q, response = r, expected_answer = e, is_correct = False,
           reasoning =
             cp ''Similarity: '' @ fmt2 s @ cp ''. '' @ cp ''Semantic Similarity: 0.00. ''
             @ VERDICT_KO\<rparr>)"
proof (intro conjI impI)
  show "\<exists>b w. fst (evaluate env q r e) =
          \<lparr>question = q, response = r, expected_answer = e, is_correct = b, reasoning = w\<rparr>"
  proof (cases "text_similarity env r e")
    case (Inl y)
    then show ?thesis by (auto simp add: evaluate_literal_raises)
  next
    case (Inr t)
    then show ?thesis
      by (cases "fl (75 / 100) \<le> t") (auto simp add: evaluate_literal_ok evaluate_literal_low)
  qed
next
  assume "text_similarity env r e = Inl x"
  then show "evaluate env q r e =
          (\<lparr>question = q, response = r, expected_answer = e, is_correct = False,
            reasoning = ERROR_PREFIX @ msg x\<rparr>, [])"
    by (rule evaluate_literal_raises)
next
  assume a: "text_similarity env r e = Inr s \<and> \<not> fl (75 / 100) \<le> s \<and> cosine_body env r e = Inl x"
  then have z: "fst (semantic_similarity env r e) = Fin 0"
    by (simp add: semantic_similarity_def)
  have nz: "\<not> fl (4 / 5) \<le> 0" using fl_080_pos by simp
  have "cp ''Semantic Similarity: '' @ fmt2 0 @ cp ''. '' = cp ''Semantic Similarity: 0.00. ''"
    by (simp add: fmt2_zero cp_def)
  then show "fst (evaluate env q r e) =
          \<lparr>question = q, response = r, expected_answer = e, is_correct = False,
           reasoning =
             cp ''Similarity: '' @ fmt2 s @ cp ''. '' @ cp ''Semantic Similarity: 0.00. ''
             @ VERDICT_KO\<rparr>"
    using a by (simp add: evaluate_literal_low z nz)
qed

theorem evaluate_catches_witness:
  "text_similarity world_matcher_fails (cp ''x'') (cp ''y'')
     = Inl (Exn OtherException (cp ''out of memory''))
   \<and> evaluate world_matcher_fails (cp ''q'') (cp ''x'') (cp ''y'')
     = (\<lparr>question = cp ''q'', response = cp ''x'', expected_answer = cp ''y'',
         is_correct = False, reasoning = ERROR_PREFIX @ cp ''out of memory''\<rparr>, [])
   \<and> text_similarity world_embeddings_down (cp ''x'') (cp ''y'') = Inr 0
   \<and> cosine_body world_embeddings_down (cp ''x'') (cp ''y'')
     = Inl (Exn OtherException (cp ''connection refused''))
   \<and> is_correct (fst (evaluate world_embeddings_down (cp ''q'') (cp ''x'') (cp ''y''))) = False"
  using
    evaluate_catches [of world_matcher_fails "cp ''q''" "cp ''x''" "cp ''y''"
      "Exn OtherException (cp ''out of memory'')" 0]
    evaluate_catches [of world_embeddings_down "cp ''q''" "cp ''x''" "cp ''y''"
      "Exn OtherException (cp ''connection refused'')" 0]
    matcher_fails_text embeddings_down_text embeddings_down_cosine zero_below_threshold
  by simp

text \<open>
  C5 as stated says that the reasoning embeds the error message for an exception of
  either comparison. When the embedding service fails with \<open>connection refused\<close>,
  the reasoning is the ordinary negative one and the message is not part of it.
\<close>

theorem evaluate_semantic_error_counterexample:
  "cosine_body world_embeddings_down (cp ''x'') (cp ''y'')
     = Inl (Exn OtherException (cp ''connection refused''))
   \<and> reasoning (fst (evaluate world_embeddings_down (cp ''q'') (cp ''x'') (cp ''y'')))
     = cp ''Similarity: 0.00. Semantic Similarity: 0.00. '' @ VERDICT_KO
   \<and> \<not> str_contains (cp ''connection refused'')
         (reasoning (fst (evaluate world_embeddings_down (cp ''q'') (cp ''x'') (cp ''y''))))"
  by code_simp

text \<open>
  C6. When the datastore has answered and each of the five rerank attempts raises
  \<open>TooManyRequestsError\<close>, \<open>search\<close> raises the \<open>RuntimeError\<close> of the exhausted
  loop, after five requests, and returns no list. Only that error is retried: when
  attempt \<open>j\<close>, after \<open>j\<close> rate-limited ones, raises another exception, \<open>search\<close>
  raises that exception and the reranker has been called \<open>j + 1\<close> times.
\<close>

theorem search_rate_limit_exhausted:
  assumes "datastore_search env query (top_k * 3) = Inr docs"
  shows "((\<forall>a<5. rate_limited env query docs top_k a) \<longrightarrow>
            fst (search env query top_k) = Inl TOO_MANY_ATTEMPTS
            \<and> rerank_calls (snd (search env query top_k)) = 5)
         \<and> (j < 5 \<and> (\<forall>a<j. rate_limited env query docs top_k a)
              \<and> co_rerank env j query docs top_k = Inl x \<and> kind x \<noteq> TooManyRequestsError \<longrightarrow>
              fst (search env query top_k) = Inl x
              \<and> rerank_calls (snd (search env query top_k)) = j + 1)"
proof -
  have a: "fst (search env query top_k) = Inl TOO_MANY_ATTEMPTS
           \<and> rerank_calls (snd (search env query top_k)) = 5"
    if "\<forall>a<5. rate_limited env query docs top_k a"
    unfolding search_ok [OF assms] rerank_exhausted [OF that] fst_conv snd_conv
    using rerank_calls_trace [of "DatastoreSearch query (top_k * 3)" query docs top_k "[0..<5]" "[]"]
    by (simp add: rerank_calls_def)
  have b: "fst (search env query top_k) = Inl x
           \<and> rerank_calls (snd (search env query top_k)) = j + 1"
    if "j < 5 \<and> (\<forall>a<j. rate_limited env query docs top_k a)
        \<and> co_rerank env j query docs top_k = Inl x \<and> kind x \<noteq> TooManyRequestsError"
  proof -
    from that have h: "j < 5" "\<forall>a<j. rate_limited env query docs top_k a"
      "co_rerank env j query docs top_k = Inl x" "kind x \<noteq> TooManyRequestsError" by simp_all
    show ?thesis
      unfolding search_ok [OF assms] rerank_other_error [OF h] fst_conv snd_conv
      using rerank_calls_trace [of "DatastoreSearch query (top_k * 3)" query docs top_k "[0..<j]"
          "[Sleep 10, CohereRerank RERANK_MODEL query docs top_k]"]
      by (simp add: rerank_calls_def)
  qed
  from a b show ?thesis by blast
qed

theorem search_rate_limit_exhausted_witness:
  "rate_limited world_limited_always (cp ''q'') [cp ''uno'', cp ''dos'', cp ''tres''] 2 4
   \<and> fst (search world_limited_always (cp ''q'') 2) = Inl TOO_MANY_ATTEMPTS
   \<and> rerank_calls (snd (search world_limited_always (cp ''q'') 2)) = 5
   \<and> co_rerank world_rerank_broken 1 (cp ''q'') [cp ''uno'', cp ''dos'', cp ''tres''] 2
       = Inl (Exn OtherException (cp ''bad request''))
   \<and> fst (search world_rerank_broken (cp ''q'') 2) = Inl (Exn OtherException (cp ''bad request''))
   \<and> rerank_calls (snd (search world_rerank_broken (cp ''q'') 2)) = 2"
proof -
  have c: "co_rerank world_rerank_broken 1 (cp ''q'') [cp ''uno'', cp ''dos'', cp ''tres''] 2
       = Inl (Exn OtherException (cp ''bad request''))"
    by (simp add: world_rerank_broken_def world_ok_def)
  have b: "\<forall>a<1. rate_limited world_rerank_broken (cp ''q'') [cp ''uno'', cp ''dos'', cp ''tres''] 2 a"
    by (simp add: broken_first)
  show ?thesis
    using
      search_rate_limit_exhausted [OF sample_datastore(1), of "cp ''q''" 2 0
        "Exn OtherException []"]
      search_rate_limit_exhausted [OF sample_datastore(3), of "cp ''q''" 2 1
        "Exn OtherException (cp ''bad request'')"]
      c b
    by (simp add: limited_always)
qed

text \<open>
  C7. \<open>search\<close> sends one request to the datastore, for \<open>3 * top_k\<close> passages. When
  the reranker answers (at attempt \<open>j\<close>, after \<open>j\<close> rate-limited ones) with the
  indices \<open>idx\<close>, the result is the candidate list read at those indices, in that
  order; with every index a position of the list, it is the list of
  \<open>docs[i]\<close> for \<open>i\<close> in \<open>idx\<close>.
\<close>

theorem search_overfetch_and_order:
  "filter is_datastore_call (snd (search env query top_k)) = [DatastoreSearch query (3 * top_k)]
   \<and> (datastore_search env query (3 * top_k) = Inr docs \<and> j < 5
        \<and> (\<forall>a<j. rate_limited env query docs top_k a)
        \<and> co_rerank env j query docs top_k = Inr idx \<longrightarrow>
        fst (search env query top_k) = index_all docs idx
        \<and> ((\<forall>i \<in> set idx. 0 \<le> i \<and> i < int (length docs)) \<longrightarrow>
             fst (search env query top_k) = Inr (map (\<lambda>i. docs ! nat i) idx)))"
proof -
  have no_ds: "filter is_datastore_call (snd (rerank_loop env query d top_k as)) = []"
    for d as
  proof (induction as)
    case Nil
    then show ?case by simp
  next
    case (Cons a as)
    then show ?case by (auto simp add: split_beta split: sum.splits)
  qed
  have no_ds': "filter is_datastore_call (snd (rerank env query d top_k)) = []" for d
    using no_ds [of d "[0..<5]"]
    by (auto simp add: rerank_def split: prod.splits sum.splits)
  have one: "filter is_datastore_call (snd (search env query top_k))
             = [DatastoreSearch query (3 * top_k)]"
    by (cases "datastore_search env query (top_k * 3)")
       (simp_all add: search_def split_beta no_ds' mult.commute)
  have order: "fst (search env query top_k) = index_all docs idx
        \<and> ((\<forall>i \<in> set idx. 0 \<le> i \<and> i < int (length docs)) \<longrightarrow>
             fst (search env query top_k) = Inr (map (\<lambda>i. docs ! nat i) idx))"
    if "datastore_search env query (3 * top_k) = Inr docs \<and> j < 5
        \<and> (\<forall>a<j. rate_limited env query docs top_k a)
        \<and> co_rerank env j query docs top_k = Inr idx"
  proof -
    from that have ds: "datastore_search env query (top_k * 3) = Inr docs"
      by (simp add: mult.commute)
    from that have h: "j < 5" "\<forall>a<j. rate_limited env query docs top_k a"
      "co_rerank env j query docs top_k = Inr idx" by simp_all
    have "fst (search env query top_k) = index_all docs idx"
      unfolding search_ok [OF ds] rerank_success [OF h] by simp
    then show ?thesis using index_all_in_range [of idx docs] by simp
  qed
  from one order show ?thesis by blast
qed

theorem search_overfetch_and_order_witness:
  "datastore_search world_limited_once (cp ''q'') (3 * 2) = Inr [cp ''uno'', cp ''dos'', cp ''tres'']
   \<and> rate_limited world_limited_once (cp ''q'') [cp ''uno'', cp ''dos'', cp ''tres''] 2 0
   \<and> co_rerank world_limited_once 1 (cp ''q'') [cp ''uno'', cp ''dos'', cp ''tres''] 2 = Inr [2, 0]
   \<and> filter is_datastore_call (snd (search world_limited_once (cp ''q'') 2))
       = [DatastoreSearch (cp ''q'') 6]
   \<and> fst (search world_limited_once (cp ''q'') 2) = Inr [cp ''tres'', cp ''uno'']"
proof -
  have c: "co_rerank world_limited_once 1 (cp ''q'') [cp ''uno'', cp ''dos'', cp ''tres''] 2
           = Inr [2, 0]"
    by (simp add: world_limited_once_def world_ok_def)
  have b: "\<forall>a<1. rate_limited world_limited_once (cp ''q'') [cp ''uno'', cp ''dos'', cp ''tres''] 2 a"
    by (simp add: limited_once)
  show ?thesis
    using
      search_overfetch_and_order [of world_limited_once "cp ''q''" 2
        "[cp ''uno'', cp ''dos'', cp ''tres'']" 1 "[2, 0]"]
      c b sample_datastore(2)
    by (simp add: py_index_def limited_once)
qed

text \<open>
  C8, as the code has it. \<open>_rerank\<close> sleeps 6 seconds once, before the loop. Every
  attempt sleeps 10 seconds and sends the request; a rate-limited attempt \<open>a\<close>
  (counted from 0) then sleeps \<open>10 * (a + 1)\<close> seconds. There are at most five
  attempts; after five rate-limited ones the call raises.
\<close>

theorem rerank_delays:
  "(j < 5 \<and> (\<forall>a<j. rate_limited env query docs top_k a)
      \<and> co_rerank env j query docs top_k = Inr idx \<longrightarrow>
      snd (rerank env query docs top_k) =
        Sleep 6 # concat (map (failed_attempt query docs top_k) [0..<j])
        @ [Sleep 10, CohereRerank RERANK_MODEL query docs top_k])
   \<and> ((\<forall>a<5. rate_limited env query docs top_k a) \<longrightarrow>
        rerank env query docs top_k =
          (Inl TOO_MANY_ATTEMPTS,
           Sleep 6 # concat (map (failed_attempt query docs top_k) [0..<5])))"
proof -
  have a: "snd (rerank env query docs top_k) =
        Sleep 6 # concat (map (failed_attempt query docs top_k) [0..<j])
        @ [Sleep 10, CohereRerank RERANK_MODEL query docs top_k]"
    if "j < 5 \<and> (\<forall>a<j. rate_limited env query docs top_k a)
      \<and> co_rerank env j query docs top_k = Inr idx"
  proof -
    from that have h: "j < 5" "\<forall>a<j. rate_limited env query docs top_k a"
      "co_rerank env j query docs top_k = Inr idx" by simp_all
    show ?thesis unfolding rerank_success [OF h] by simp
  qed
  from a rerank_exhausted [of env query docs top_k] show ?thesis by blast
qed

theorem rerank_delays_witness:
  "rate_limited world_limited_once (cp ''q'') [cp ''uno''] 2 0
   \<and> co_rerank world_limited_once 1 (cp ''q'') [cp ''uno''] 2 = Inr [2, 0]
   \<and> snd (rerank world_limited_once (cp ''q'') [cp ''uno''] 2)
       = [Sleep 6,
          Sleep 10, CohereRerank RERANK_MODEL (cp ''q'') [cp ''uno''] 2, Sleep 10,
          Sleep 10, CohereRerank RERANK_MODEL (cp ''q'') [cp ''uno''] 2]
   \<and> rate_limited world_limited_always (cp ''q'') [cp ''uno''] 2 4
   \<and> fst (rerank world_limited_always (cp ''q'') [cp ''uno''] 2) = Inl TOO_MANY_ATTEMPTS"
proof -
  have c: "co_rerank world_limited_once 1 (cp ''q'') [cp ''uno''] 2 = Inr [2, 0]"
    by (simp add: world_limited_once_def world_ok_def)
  have b: "\<forall>a<1. rate_limited world_limited_once (cp ''q'') [cp ''uno''] 2 a"
    by (simp add: limited_once)
  show ?thesis
    using
      rerank_delays [of 1 world_limited_once "cp ''q''" "[cp ''uno'']" 2 "[2, 0]"]
      rerank_delays [of 0 world_limited_always "cp ''q''" "[cp ''uno'']" 2 "[]"]
      c b
    by (simp add: limited_always limited_once failed_attempt_def)
qed

text \<open>
  C8 as stated applies the 6-second delay before every attempt. When the first attempt
  is rate limited and the second succeeds, the reranker is called twice and the trace
  holds one sleep of 6 seconds.
\<close>

theorem rerank_initial_delay_counterexample:
  "rerank_calls (snd (rerank world_limited_once (cp ''q'') [cp ''uno'', cp ''dos'', cp ''tres''] 2)) = 2
   \<and> count_list (snd (rerank world_limited_once (cp ''q'') [cp ''uno'', cp ''dos'', cp ''tres''] 2))
        (Sleep 6) = 1"
  by code_simp

text \<open>
  C10. When retrieval and generation succeed, \<open>process_query\<close> returns the
  generator's response passed through \<open>ethical_guardrails\<close>: one of the two fixed
  refusals, or the response followed by the fixed source suffix. The returned string
  equals the generator's response only when that response is itself the investment
  refusal.
\<close>

theorem process_query_filtered:
  assumes "fst (search env query 10) = Inr docs"
    and "fst (generate_response env query docs) = Inr resp"
  shows "fst (process_query env query) = Inr (ethical_guardrails resp)
         \<and> (ethical_guardrails resp = INVESTMENT_REFUSAL
              \<or> ethical_guardrails resp = PREDICTION_REFUSAL
              \<or> ethical_guardrails resp = resp @ SOURCE_SUFFIX)
         \<and> (ethical_guardrails resp = resp \<longrightarrow> resp = INVESTMENT_REFUSAL)"
proof -
  have "fst (process_query env query) = Inr (ethical_guardrails resp)"
    using assms by (auto simp add: process_query_def split: prod.splits sum.splits)
  then show ?thesis using guardrails_forms [of resp] guardrails_fixed_point [of resp] by blast
qed

theorem process_query_filtered_witness:
  "fst (search world_ok (cp ''q'') 10) = Inr [cp ''tres'', cp ''uno'']
   \<and> fst (generate_response world_ok (cp ''q'') [cp ''tres'', cp ''uno''])
       = Inr (cp ''El EBITDA fue 10'')
   \<and> fst (process_query world_ok (cp ''q'')) = Inr (cp ''El EBITDA fue 10'' @ SOURCE_SUFFIX)"
  using process_query_filtered [OF world_ok_search world_ok_generate]
    world_ok_search world_ok_generate guardrails_sample
  by simp

end
